theory Spec2Isabelle
  imports Complex_Main "HOL-Library.Log_Nat" "HOL-Library.Multiset"
begin

section \<open>JavaScript values read by the release route\<close>

text \<open>
  The route is dynamically typed (\<^verbatim>\<open>clampPts(v: any)\<close>), so the values it reads are modelled
  as JavaScript values. A Number is an IEEE double: a finite value, an infinity or NaN. A finite
  double is a rational, so \<open>Fin r\<close> covers every finite double (and more); negative zero is
  identified with zero, which no function of the route tells apart (\<^verbatim>\<open>Math.max(0, -0)\<close> is
  \<open>+0\<close>). A numeric position (a point counter, an override of the request body, a predicted
  balance, the payable amount) holds a Number, \<^verbatim>\<open>null\<close> or \<^verbatim>\<open>undefined\<close>; a name position (an
  item status, a program name) holds a string, or nothing.
\<close>

datatype jsnum = Fin rat | PosInf | NegInf | NaN

datatype jsval = JUndefined | JNull | JNum jsnum

text \<open>\<^verbatim>\<open>Number(v)\<close>: \<^verbatim>\<open>undefined\<close> becomes NaN and \<^verbatim>\<open>null\<close> becomes 0.\<close>

fun Number :: "jsval \<Rightarrow> jsnum" where
  "Number JUndefined = NaN"
| "Number JNull = Fin 0"
| "Number (JNum n) = n"

fun isFinite :: "jsnum \<Rightarrow> bool" where
  "isFinite (Fin r) = True"
| "isFinite PosInf = False"
| "isFinite NegInf = False"
| "isFinite NaN = False"

text \<open>\<^verbatim>\<open>Math.trunc\<close> on a finite value: the integer part, rounding toward zero.\<close>

definition trunc :: "rat \<Rightarrow> int" where
  "trunc r = (if r < 0 then \<lceil>r\<rceil> else \<lfloor>r\<rfloor>)"

text \<open>
  \<^verbatim>\<open>
  function clampPts(v: any) {
    const n = Number(v);
    if (!Number.isFinite(n)) return 0;
    return Math.max(0, Math.trunc(n));
  }
  \<close>
  The result is an integer-valued double; the model returns its value.
\<close>

definition clampPts :: "jsval \<Rightarrow> int" where
  "clampPts v =
     (let n = Number v in
      if \<not> isFinite n then 0
      else (case n of Fin r \<Rightarrow> max 0 (trunc r) | _ \<Rightarrow> 0))"

text \<open>The nullish coalescing operator \<^verbatim>\<open>a ?? b\<close>: \<open>b\<close> when \<open>a\<close> is null or undefined.\<close>

fun coalesce :: "jsval \<Rightarrow> jsval \<Rightarrow> jsval" where
  "coalesce JUndefined b = b"
| "coalesce JNull b = b"
| "coalesce (JNum n) b = JNum n"

subsection \<open>Sums of integer-valued doubles\<close>

text \<open>
  Every sum the route computes has integer-valued operands: results of \<open>clampPts\<close> and earlier
  such sums. The exact sum is an integer; JavaScript rounds it to the nearest double, ties to
  the even significand, and to an infinity from \<open>2 ^ 1024 - 2 ^ 970\<close> on. Integers up to
  \<open>2 ^ 53\<close> in magnitude are doubles themselves.
\<close>

datatype jsint = IFin int | IPosInf | INegInf | INaN

definition round_double :: "int \<Rightarrow> jsint" where
  "round_double n =
     (let a = \<bar>n\<bar> in
      if a \<le> 2 ^ 53 then IFin n
      else
        let e = nat (bitlen a) - 53;
            q = a div 2 ^ e;
            r = a mod 2 ^ e;
            h = 2 ^ (e - 1);
            m = (if h < r \<or> (r = h \<and> odd q) then q + 1 else q);
            v = m * 2 ^ e
        in if 2 ^ 1024 \<le> v then (if 0 < n then IPosInf else INegInf)
           else IFin (if 0 < n then v else - v))"

fun js_add :: "jsint \<Rightarrow> jsint \<Rightarrow> jsint" where
  "js_add (IFin a) (IFin b) = round_double (a + b)"
| "js_add INaN y = INaN"
| "js_add x INaN = INaN"
| "js_add IPosInf INegInf = INaN"
| "js_add INegInf IPosInf = INaN"
| "js_add IPosInf y = IPosInf"
| "js_add INegInf y = INegInf"
| "js_add x IPosInf = IPosInf"
| "js_add x INegInf = INegInf"

fun js_neg :: "jsint \<Rightarrow> jsint" where
  "js_neg (IFin a) = IFin (- a)"
| "js_neg IPosInf = INegInf"
| "js_neg INegInf = IPosInf"
| "js_neg INaN = INaN"

text \<open>\<^verbatim>\<open>x - y\<close> is \<^verbatim>\<open>x + (-y)\<close> in IEEE arithmetic.\<close>

definition js_sub :: "jsint \<Rightarrow> jsint \<Rightarrow> jsint" where
  "js_sub x y = js_add x (js_neg y)"

fun num_of :: "jsint \<Rightarrow> jsnum" where
  "num_of (IFin a) = Fin (of_int a)"
| "num_of IPosInf = PosInf"
| "num_of INegInf = NegInf"
| "num_of INaN = NaN"

section \<open>Program keys\<close>

datatype ProgramKey = latam | smiles | livelo | esfera | azul | iberia | aa | tap | flyingBlue

text \<open>
  A JavaScript string that \<^verbatim>\<open>trim\<close> and \<^verbatim>\<open>toUpperCase\<close> work on is the list of its code
  points (integers from 0 to 1114111), a surrogate outside a pair counting as one:
  \<^verbatim>\<open>toUpperCase\<close> maps code point by code point, \<^verbatim>\<open>trim\<close> strips code points of the basic
  plane, and two strings are equal when their code points are. \<open>asc\<close> gives the code points
  of an ASCII literal.
\<close>

type_synonym jsstring = "int list"

definition asc :: "string \<Rightarrow> jsstring" where
  "asc s = map of_char s"

text \<open>
  \<^verbatim>\<open>String.prototype.trim\<close> strips white space and line terminators from both ends: TAB, LF,
  VT, FF, CR, SPACE, U+00A0, U+1680, U+2000 to U+200A, U+2028, U+2029, U+202F, U+205F, U+3000
  and U+FEFF.
\<close>

definition is_space :: "int \<Rightarrow> bool" where
  "is_space c =
     (c \<in> {9, 10, 11, 12, 13, 32, 160, 5760, 8232, 8233, 8239, 8287, 12288, 65279}
      \<or> (8192 \<le> c \<and> c \<le> 8202))"

definition trim :: "jsstring \<Rightarrow> jsstring" where
  "trim s = rev (dropWhile is_space (rev (dropWhile is_space s)))"

text \<open>
  \<^verbatim>\<open>String.prototype.toUpperCase\<close> replaces every code point by its upper case, which may be
  several code points. In ASCII the letters \<open>a\<close> to \<open>z\<close> become \<open>A\<close> to \<open>Z\<close> and nothing else
  changes. From code point 128 on the upper case is an entry of the Unicode tables of the
  runtime, which are no part of the route: \<open>U c\<close> is that entry, and every definition that
  puts a name in upper case takes \<open>U\<close> as its first argument.
\<close>

definition ascii_upper :: "int \<Rightarrow> int" where
  "ascii_upper c = (if 97 \<le> c \<and> c \<le> 122 then c - 32 else c)"

definition upper_point :: "(int \<Rightarrow> int list) \<Rightarrow> int \<Rightarrow> int list" where
  "upper_point U c = (if c < 128 then [ascii_upper c] else U c)"

definition toUpperCase :: "(int \<Rightarrow> int list) \<Rightarrow> jsstring \<Rightarrow> jsstring" where
  "toUpperCase U s = concat (map (upper_point U) s)"

text \<open>\<^verbatim>\<open>String(v || "")\<close> on a name position: nothing, or the empty string, is \<^verbatim>\<open>""\<close>.\<close>

fun or_empty :: "'a list option \<Rightarrow> 'a list" where
  "or_empty None = []"
| "or_empty (Some s) = s"

text \<open>
  \<^verbatim>\<open>
  function toProgramKey(v: any): ProgramKey | null {
    const up = String(v || "").trim().toUpperCase();
    if (up === "LATAM") return "latam";
    ...
    if (up === "FLYING_BLUE") return "flyingBlue";
    return null;
  }
  \<close>
\<close>

definition toProgramKey :: "(int \<Rightarrow> int list) \<Rightarrow> jsstring option \<Rightarrow> ProgramKey option" where
  "toProgramKey U v =
     (let up = toUpperCase U (trim (or_empty v)) in
      if up = asc ''LATAM'' then Some latam
      else if up = asc ''SMILES'' then Some smiles
      else if up = asc ''LIVELO'' then Some livelo
      else if up = asc ''ESFERA'' then Some esfera
      else if up = asc ''AZUL'' then Some azul
      else if up = asc ''IBERIA'' then Some iberia
      else if up = asc ''AA'' then Some aa
      else if up = asc ''TAP'' then Some tap
      else if up = asc ''FLYING_BLUE'' then Some flyingBlue
      else None)"

section \<open>The Delta Resolver\<close>

text \<open>
  A purchase item, as a row of the store and as the object the resolver reads. A field the
  object lacks reads as \<^verbatim>\<open>undefined\<close>; an element that is itself null reads as the item with
  every field undefined (\<^verbatim>\<open>it?.status\<close>).
\<close>

record item =
  purchaseId :: string
  item_status :: "jsstring option"
  programTo :: "jsstring option"
  programFrom :: "jsstring option"
  pointsFinal :: jsval
  pointsDebitedFromOrigin :: jsval

text \<open>
  \<^verbatim>\<open>
  for (const it of items || []) {
    if (String(it?.status || "").toUpperCase() === "CANCELED") continue;
    const programTo = toProgramKey(it?.programTo);
    if (programTo) out[programTo] += clampPts(it?.pointsFinal);
    const programFrom = toProgramKey(it?.programFrom);
    if (programFrom) out[programFrom] -= clampPts(it?.pointsDebitedFromOrigin);
  }
  \<close>
  \<open>out\<close> is a \<^verbatim>\<open>Record<ProgramKey, number>\<close> holding all nine keys: a function on the keys.
\<close>

definition is_canceled :: "(int \<Rightarrow> int list) \<Rightarrow> item \<Rightarrow> bool" where
  "is_canceled U it = (toUpperCase U (or_empty (item_status it)) = asc ''CANCELED'')"

definition credit ::
  "(int \<Rightarrow> int list) \<Rightarrow> (ProgramKey \<Rightarrow> jsint) \<Rightarrow> item \<Rightarrow> (ProgramKey \<Rightarrow> jsint)" where
  "credit U out it =
     (case toProgramKey U (programTo it) of
        None \<Rightarrow> out
      | Some k \<Rightarrow> out (k := js_add (out k) (IFin (clampPts (pointsFinal it)))))"

definition debit ::
  "(int \<Rightarrow> int list) \<Rightarrow> (ProgramKey \<Rightarrow> jsint) \<Rightarrow> item \<Rightarrow> (ProgramKey \<Rightarrow> jsint)" where
  "debit U out it =
     (case toProgramKey U (programFrom it) of
        None \<Rightarrow> out
      | Some k \<Rightarrow> out (k := js_sub (out k) (IFin (clampPts (pointsDebitedFromOrigin it)))))"

definition delta_step ::
  "(int \<Rightarrow> int list) \<Rightarrow> (ProgramKey \<Rightarrow> jsint) \<Rightarrow> item \<Rightarrow> (ProgramKey \<Rightarrow> jsint)" where
  "delta_step U out it = (if is_canceled U it then out else debit U (credit U out it) it)"

fun delta_loop ::
  "(int \<Rightarrow> int list) \<Rightarrow> (ProgramKey \<Rightarrow> jsint) \<Rightarrow> item list \<Rightarrow> (ProgramKey \<Rightarrow> jsint)" where
  "delta_loop U out [] = out"
| "delta_loop U out (it # items) = delta_loop U (delta_step U out it) items"

definition computeProgramDeltas :: "(int \<Rightarrow> int list) \<Rightarrow> item list \<Rightarrow> (ProgramKey \<Rightarrow> jsint)" where
  "computeProgramDeltas U items = delta_loop U (\<lambda>k. IFin 0) items"

section \<open>The store\<close>

text \<open>
  The entities the route reads and writes, with the fields it touches. The nine point counters
  \<^verbatim>\<open>pontosLatam\<close> to \<^verbatim>\<open>pontosFlyingBlue\<close> of a cedente are \<open>pontos c latam\<close> to
  \<open>pontos c flyingBlue\<close>. Field names shared by two entities carry the entity's name in all
  but one of them. Times are ticks of a clock.
\<close>

record cedente =
  nomeCompleto :: string
  pontos :: "ProgramKey \<Rightarrow> jsval"

record purchase =
  cedenteId :: "string option"
  status :: string
  saldoPrevistoLatam :: jsval
  saldoPrevistoSmiles :: jsval
  saldoPrevistoLivelo :: jsval
  saldoPrevistoEsfera :: jsval
  saldoAplicadoLatam :: jsval
  saldoAplicadoSmiles :: jsval
  saldoAplicadoLivelo :: jsval
  saldoAplicadoEsfera :: jsval
  cedentePayCents :: jsval
  liberadoEm :: "nat option"
  liberadoPorId :: "string option"

record commission =
  commission_cedenteId :: "string option"
  commission_purchaseId :: string
  amountCents :: jsnum
  commission_status :: string
  generatedById :: string
  generatedAt :: nat
  paidAt :: "nat option"
  paidById :: "string option"

text \<open>
  Purchases and cedentes are keyed by their id; items and commissions are tables of rows.
\<close>

record db =
  purchases :: "string \<rightharpoonup> purchase"
  cedentes :: "string \<rightharpoonup> cedente"
  items :: "item list"
  commissions :: "commission list"

text \<open>
  The messages of the route (the source's texts are Portuguese):
  \<open>IdObrigatorio\<close> "id e obrigatorio.",
  \<open>SessaoInvalida\<close> "Sessao invalida: faca login novamente.",
  \<open>CompraNaoEncontrada\<close> "Compra nao encontrada.",
  \<open>CompraNaoEncontradaPosRecompute\<close> "Compra nao encontrada (pos-recompute).",
  \<open>SoPodeLiberarCompraOpen\<close> "So pode liberar compra OPEN.",
  \<open>CedenteNaoEncontradoNaCompra\<close> "Cedente nao encontrado na compra.",
  \<open>CompraJaNaoEstaOpen\<close> "Compra ja nao esta OPEN (possivel dupla liberacao).",
  \<open>FalhaAoLiberarCompra\<close> "Falha ao liberar compra.";
  \<open>Thrown s\<close> is the message of an exception raised by the store or by a collaborator.
\<close>

datatype message =
    IdObrigatorio
  | SessaoInvalida
  | CompraNaoEncontrada
  | CompraNaoEncontradaPosRecompute
  | SoPodeLiberarCompraOpen
  | CedenteNaoEncontradoNaCompra
  | CompraJaNaoEstaOpen
  | FalhaAoLiberarCompra
  | Thrown string

subsection \<open>Store calls\<close>

text \<open>
  \<^verbatim>\<open>purchase.findUnique({ where: { id }, include: { cedente: true, items: true } })\<close>:
  the purchase, the cedente its \<^verbatim>\<open>cedenteId\<close> refers to (null when there is none), and its
  items.
\<close>

definition include_cedente :: "db \<Rightarrow> purchase \<Rightarrow> cedente option" where
  "include_cedente d p = (case cedenteId p of None \<Rightarrow> None | Some c \<Rightarrow> cedentes d c)"

definition include_items :: "db \<Rightarrow> string \<Rightarrow> item list" where
  "include_items d i = filter (\<lambda>it. purchaseId it = i) (items d)"

definition findUnique :: "db \<Rightarrow> string \<Rightarrow> (purchase \<times> cedente option \<times> item list) option" where
  "findUnique d i =
     (case purchases d i of
        None \<Rightarrow> None
      | Some p \<Rightarrow> Some (p, include_cedente d p, include_items d i))"

text \<open>
  The calls of one transaction. Any of them may raise a storage error: \<open>F call\<close> is the
  message of the error that call raises, if it raises one.
\<close>

datatype tx_call = FindUnique | CedenteUpdate | ItemUpdateMany | PurchaseUpdate | CommissionUpsert

text \<open>
  \<^verbatim>\<open>cedente.update({ where: { id }, data: { pontosLatam: applied.latam, ... } })\<close>; the call
  raises when no row has that id.
\<close>

definition cedente_update ::
  "(tx_call \<Rightarrow> message option) \<Rightarrow> string option \<Rightarrow> (ProgramKey \<Rightarrow> int) \<Rightarrow> db \<Rightarrow> message + db" where
  "cedente_update F cid applied d =
     (case F CedenteUpdate of
        Some e \<Rightarrow> Inl e
      | None \<Rightarrow>
         (case cid of
            None \<Rightarrow> Inl (Thrown ''Record to update not found.'')
          | Some c \<Rightarrow>
             (case cedentes d c of
                None \<Rightarrow> Inl (Thrown ''Record to update not found.'')
              | Some row \<Rightarrow>
                 Inr (d\<lparr>cedentes := (cedentes d)
                         (c \<mapsto> row\<lparr>pontos := (\<lambda>k. JNum (Fin (of_int (applied k))))\<rparr>)\<rparr>))))"

text \<open>
  \<^verbatim>\<open>purchaseItem.updateMany({ where: { purchaseId: id, status: "PENDING" },
      data: { status: "RELEASED" } })\<close>
\<close>

definition release_item :: "string \<Rightarrow> item \<Rightarrow> item" where
  "release_item i it =
     (if purchaseId it = i \<and> item_status it = Some (asc ''PENDING'')
      then it\<lparr>item_status := Some (asc ''RELEASED'')\<rparr> else it)"

definition item_updateMany :: "(tx_call \<Rightarrow> message option) \<Rightarrow> string \<Rightarrow> db \<Rightarrow> message + db" where
  "item_updateMany F i d =
     (case F ItemUpdateMany of
        Some e \<Rightarrow> Inl e
      | None \<Rightarrow> Inr (d\<lparr>items := map (release_item i) (items d)\<rparr>))"

text \<open>
  \<^verbatim>\<open>purchase.update({ where: { id }, data: { liberadoEm: new Date(), liberadoPorId: userId,
      status: "CLOSED", saldoAplicadoLatam: applied.latam, ... } })\<close>, returning the updated row.
\<close>

definition close_data :: "nat \<Rightarrow> string \<Rightarrow> (ProgramKey \<Rightarrow> int) \<Rightarrow> purchase \<Rightarrow> purchase" where
  "close_data t userId applied p =
     p\<lparr>liberadoEm := Some t,
       liberadoPorId := Some userId,
       status := ''CLOSED'',
       saldoAplicadoLatam := JNum (Fin (of_int (applied latam))),
       saldoAplicadoSmiles := JNum (Fin (of_int (applied smiles))),
       saldoAplicadoLivelo := JNum (Fin (of_int (applied livelo))),
       saldoAplicadoEsfera := JNum (Fin (of_int (applied esfera)))\<rparr>"

definition purchase_update ::
  "(tx_call \<Rightarrow> message option) \<Rightarrow> nat \<Rightarrow> string \<Rightarrow> string \<Rightarrow> (ProgramKey \<Rightarrow> int) \<Rightarrow> db
     \<Rightarrow> message + (db \<times> purchase)" where
  "purchase_update F t i userId applied d =
     (case F PurchaseUpdate of
        Some e \<Rightarrow> Inl e
      | None \<Rightarrow>
         (case purchases d i of
            None \<Rightarrow> Inl (Thrown ''Record to update not found.'')
          | Some p \<Rightarrow>
             (let closedPurchase = close_data t userId applied p
              in Inr (d\<lparr>purchases := (purchases d)(i \<mapsto> closedPurchase)\<rparr>, closedPurchase))))"

text \<open>
  \<^verbatim>\<open>cedenteCommission.upsert({ where: { purchaseId }, create: {...}, update: {...} })\<close>:
  the row with that purchase reference is updated where it stands; when there is none, the
  new row is added. The updated or created row is returned.
\<close>

fun upsert :: "string \<Rightarrow> commission \<Rightarrow> (commission \<Rightarrow> commission) \<Rightarrow> commission list
    \<Rightarrow> commission list \<times> commission" where
  "upsert pid cr up [] = ([cr], cr)"
| "upsert pid cr up (c # cs) =
     (if commission_purchaseId c = pid then (up c # cs, up c)
      else (c # fst (upsert pid cr up cs), snd (upsert pid cr up cs)))"

definition create_data :: "nat \<Rightarrow> string \<Rightarrow> string \<Rightarrow> purchase \<Rightarrow> jsnum \<Rightarrow> commission" where
  "create_data t userId i closedPurchase amount =
     \<lparr>commission_cedenteId = cedenteId closedPurchase,
      commission_purchaseId = i,
      amountCents = amount,
      commission_status = ''PENDING'',
      generatedById = userId,
      generatedAt = t,
      paidAt = None,
      paidById = None\<rparr>"

definition update_data :: "string \<Rightarrow> jsnum \<Rightarrow> commission \<Rightarrow> commission" where
  "update_data userId amount c =
     c\<lparr>amountCents := amount,
       commission_status := ''PENDING'',
       generatedById := userId,
       paidAt := None,
       paidById := None\<rparr>"

definition commission_upsert ::
  "(tx_call \<Rightarrow> message option) \<Rightarrow> nat \<Rightarrow> string \<Rightarrow> string \<Rightarrow> purchase \<Rightarrow> jsnum \<Rightarrow> db
     \<Rightarrow> message + (db \<times> commission)" where
  "commission_upsert F t userId i closedPurchase amount d =
     (case F CommissionUpsert of
        Some e \<Rightarrow> Inl e
      | None \<Rightarrow>
         (let r = upsert i (create_data t userId i closedPurchase amount)
                    (update_data userId amount) (commissions d)
          in Inr (d\<lparr>commissions := fst r\<rparr>, snd r)))"

text \<open>
  \<^verbatim>\<open>prisma.$transaction(async (tx) => ...)\<close>: the writes of the callback are committed when it
  returns and discarded when it throws; the exception is thrown on to the caller.
\<close>

definition transaction :: "(db \<Rightarrow> message + (db \<times> 'a)) \<Rightarrow> db \<Rightarrow> (message + 'a) \<times> db" where
  "transaction f d = (case f d of Inl e \<Rightarrow> (Inl e, d) | Inr (d', r) \<Rightarrow> (Inr r, d'))"

section \<open>The Release Coordinator\<close>

text \<open>
  Lines 88 to 114 of the route, one equation for each key of \<^verbatim>\<open>applied\<close>:
  \<^verbatim>\<open>
  latam: clampPts(
    body?.saldosAplicados?.latam ?? stillOpen.saldoPrevistoLatam ?? current.latam + deltas.latam),
  ...
  azul: clampPts(body?.saldosAplicados?.azul ?? current.azul + deltas.azul),
  \<close>
  \<open>body k\<close> is \<^verbatim>\<open>body?.saldosAplicados?.k\<close>, undefined when the body or the map is missing.
\<close>

definition computed :: "(ProgramKey \<Rightarrow> int) \<Rightarrow> (ProgramKey \<Rightarrow> jsint) \<Rightarrow> ProgramKey \<Rightarrow> jsval" where
  "computed current deltas k = JNum (num_of (js_add (IFin (current k)) (deltas k)))"

fun applied ::
  "(ProgramKey \<Rightarrow> jsval) \<Rightarrow> purchase \<Rightarrow> (ProgramKey \<Rightarrow> int) \<Rightarrow> (ProgramKey \<Rightarrow> jsint)
     \<Rightarrow> ProgramKey \<Rightarrow> int" where
  "applied body stillOpen current deltas latam =
     clampPts (coalesce (coalesce (body latam) (saldoPrevistoLatam stillOpen))
                 (computed current deltas latam))"
| "applied body stillOpen current deltas smiles =
     clampPts (coalesce (coalesce (body smiles) (saldoPrevistoSmiles stillOpen))
                 (computed current deltas smiles))"
| "applied body stillOpen current deltas livelo =
     clampPts (coalesce (coalesce (body livelo) (saldoPrevistoLivelo stillOpen))
                 (computed current deltas livelo))"
| "applied body stillOpen current deltas esfera =
     clampPts (coalesce (coalesce (body esfera) (saldoPrevistoEsfera stillOpen))
                 (computed current deltas esfera))"
| "applied body stillOpen current deltas azul =
     clampPts (coalesce (body azul) (computed current deltas azul))"
| "applied body stillOpen current deltas iberia =
     clampPts (coalesce (body iberia) (computed current deltas iberia))"
| "applied body stillOpen current deltas aa =
     clampPts (coalesce (body aa) (computed current deltas aa))"
| "applied body stillOpen current deltas tap =
     clampPts (coalesce (body tap) (computed current deltas tap))"
| "applied body stillOpen current deltas flyingBlue =
     clampPts (coalesce (body flyingBlue) (computed current deltas flyingBlue))"

text \<open>
  \<^verbatim>\<open>Number(closedPurchase.cedentePayCents || 0)\<close> and the test \<^verbatim>\<open>amountCents > 0\<close>.
\<close>

fun or_zero :: "jsval \<Rightarrow> jsval" where
  "or_zero JUndefined = JNum (Fin 0)"
| "or_zero JNull = JNum (Fin 0)"
| "or_zero (JNum NaN) = JNum (Fin 0)"
| "or_zero (JNum (Fin r)) = JNum (Fin r)"
| "or_zero (JNum PosInf) = JNum PosInf"
| "or_zero (JNum NegInf) = JNum NegInf"

fun gt_zero :: "jsnum \<Rightarrow> bool" where
  "gt_zero (Fin r) = (0 < r)"
| "gt_zero PosInf = True"
| "gt_zero NegInf = False"
| "gt_zero NaN = False"

text \<open>
  What a successful release returns: the closed purchase with its items and its cedente, and
  the commission. (The user the purchase is linked to by \<^verbatim>\<open>liberadoPor\<close> is left out.)
\<close>

record release_result =
  compra :: purchase
  compra_items :: "item list"
  compra_cedente :: "cedente option"
  commission :: "commission option"

text \<open>Lines 154 to 181: the commission, when the purchase has a payable amount.\<close>

definition commission_step ::
  "(tx_call \<Rightarrow> message option) \<Rightarrow> nat \<Rightarrow> string \<Rightarrow> string \<Rightarrow> purchase \<Rightarrow> db
     \<Rightarrow> message + (db \<times> release_result)" where
  "commission_step F t userId i closedPurchase d =
     (let amount = Number (or_zero (cedentePayCents closedPurchase));
          closed = \<lparr>compra = closedPurchase, compra_items = include_items d i,
                    compra_cedente = include_cedente d closedPurchase, commission = None\<rparr>
      in if gt_zero amount then
           (case commission_upsert F t userId i closedPurchase amount d of
              Inl e \<Rightarrow> Inl e
            | Inr (d', c) \<Rightarrow> Inr (d', closed\<lparr>commission := Some c\<rparr>))
         else Inr (d, closed))"

text \<open>Lines 58 to 182: the callback of the transaction.\<close>

definition release_tx ::
  "(int \<Rightarrow> int list) \<Rightarrow> (tx_call \<Rightarrow> message option) \<Rightarrow> nat \<Rightarrow> string \<Rightarrow> string
     \<Rightarrow> (ProgramKey \<Rightarrow> jsval) \<Rightarrow> db \<Rightarrow> message + (db \<times> release_result)" where
  "release_tx U F t i userId body d =
     (case F FindUnique of
        Some e \<Rightarrow> Inl e
      | None \<Rightarrow>
     (case findUnique d i of
        None \<Rightarrow> Inl CompraNaoEncontrada
      | Some (stillOpen, ced, its) \<Rightarrow>
     if status stillOpen \<noteq> ''OPEN'' then Inl CompraJaNaoEstaOpen
     else
     (case ced of
        None \<Rightarrow> Inl CedenteNaoEncontradoNaCompra
      | Some c \<Rightarrow>
     (let current = (\<lambda>k. clampPts (pontos c k));
          deltas = computeProgramDeltas U its;
          appl = applied body stillOpen current deltas
      in
     (case cedente_update F (cedenteId stillOpen) appl d of
        Inl e \<Rightarrow> Inl e
      | Inr d1 \<Rightarrow>
     (case item_updateMany F i d1 of
        Inl e \<Rightarrow> Inl e
      | Inr d2 \<Rightarrow>
     (case purchase_update F t i userId appl d2 of
        Inl e \<Rightarrow> Inl e
      | Inr (d3, closedPurchase) \<Rightarrow> commission_step F t userId i closedPurchase d3)))))))"

text \<open>
  What the route does not decide itself: \<open>recomputeCompra\<close>, a collaborator whose code is not
  part of the route (it may write to the store, and may throw); \<open>concurrent\<close>, the writes other
  requests commit between the route's re-read and the snapshot of its transaction;
  \<open>storage_fault\<close>, the storage errors of the transaction's calls; \<open>now\<close>, the clock;
  \<open>upper_case\<close>, the upper case of the code points from 128 on in the runtime's tables.
  Storage errors of the two reads made before the transaction are left out: the handler has
  written nothing when they occur.
\<close>

record world =
  recomputeCompra :: "string \<Rightarrow> db \<Rightarrow> db \<times> message option"
  concurrent :: "db \<Rightarrow> db"
  storage_fault :: "tx_call \<Rightarrow> message option"
  now :: nat
  upper_case :: "int \<Rightarrow> int list"

record request =
  req_id :: string
  session :: "string option"
  saldosAplicados :: "ProgramKey \<Rightarrow> jsval"

text \<open>
  The responses are named after the helpers that build them; \<open>serverError m detail\<close> carries
  \<^verbatim>\<open>{ detail: e?.message }\<close>.
\<close>

datatype response =
    ok release_result
  | badRequest message
  | notFound message
  | serverError message message

text \<open>The state of the store when the transaction takes its snapshot.\<close>

definition snapshot :: "world \<Rightarrow> request \<Rightarrow> db \<Rightarrow> db" where
  "snapshot w req d = concurrent w (fst (recomputeCompra w (req_id req) d))"

text \<open>Lines 17 to 188: the handler, from the request and the store to the response and the store.\<close>

definition POST :: "world \<Rightarrow> request \<Rightarrow> db \<Rightarrow> response \<times> db" where
  "POST w req d =
     (let i = req_id req in
      if i = [] then (badRequest IdObrigatorio, d)
      else
      let userId = or_empty (session req) in
      if userId = [] then (badRequest SessaoInvalida, d)
      else
      (case findUnique d i of
         None \<Rightarrow> (notFound CompraNaoEncontrada, d)
       | Some (compraBase, cb, ib) \<Rightarrow>
      if status compraBase \<noteq> ''OPEN'' then (badRequest SoPodeLiberarCompraOpen, d)
      else
      (case recomputeCompra w i d of
         (d1, Some e) \<Rightarrow> (serverError FalhaAoLiberarCompra e, d1)
       | (d1, None) \<Rightarrow>
      (case findUnique d1 i of
         None \<Rightarrow> (notFound CompraNaoEncontradaPosRecompute, d1)
       | Some (compra1, ced, its) \<Rightarrow>
      if status compra1 \<noteq> ''OPEN'' then (badRequest SoPodeLiberarCompraOpen, d1)
      else if ced = None then (badRequest CedenteNaoEncontradoNaCompra, d1)
      else
      (case transaction
              (release_tx (upper_case w) (storage_fault w) (now w) i userId (saldosAplicados req))
              (concurrent w d1) of
         (Inl e, d2) \<Rightarrow> (serverError FalhaAoLiberarCompra e, d2)
       | (Inr result, d2) \<Rightarrow> (ok result, d2))))))"

section \<open>Notions of the specification\<close>

text \<open>
  The applied balance in the specification's words: the override of the request when it is
  present; for the four legacy programs the predicted balance stored on the purchase when it
  is present; otherwise the current balance plus the delta; the value found is clamped.
\<close>

fun present :: "jsval \<Rightarrow> bool" where
  "present JUndefined = False"
| "present JNull = False"
| "present (JNum n) = True"

definition legacy :: "ProgramKey \<Rightarrow> bool" where
  "legacy k = (k = latam \<or> k = smiles \<or> k = livelo \<or> k = esfera)"

fun predicted :: "purchase \<Rightarrow> ProgramKey \<Rightarrow> jsval" where
  "predicted p latam = saldoPrevistoLatam p"
| "predicted p smiles = saldoPrevistoSmiles p"
| "predicted p livelo = saldoPrevistoLivelo p"
| "predicted p esfera = saldoPrevistoEsfera p"
| "predicted p k = JUndefined"

definition spec_applied ::
  "(ProgramKey \<Rightarrow> jsval) \<Rightarrow> purchase \<Rightarrow> (ProgramKey \<Rightarrow> int) \<Rightarrow> (ProgramKey \<Rightarrow> jsint)
     \<Rightarrow> ProgramKey \<Rightarrow> int" where
  "spec_applied override p current deltas k =
     clampPts
       (if present (override k) then override k
        else if legacy k \<and> present (predicted p k) then predicted p k
        else JNum (num_of (js_add (IFin (current k)) (deltas k))))"

text \<open>A response is a success when it was built by \<open>ok\<close>; the commission it returns.\<close>

fun is_ok :: "response \<Rightarrow> bool" where
  "is_ok (ok r) = True"
| "is_ok (badRequest m) = False"
| "is_ok (notFound m) = False"
| "is_ok (serverError m e) = False"

fun returned_commission :: "response \<Rightarrow> commission option" where
  "returned_commission (ok r) = commission r"
| "returned_commission (badRequest m) = None"
| "returned_commission (notFound m) = None"
| "returned_commission (serverError m e) = None"

text \<open>
  Modelled from the spec: the helpers \<^verbatim>\<open>ok\<close>, \<^verbatim>\<open>badRequest\<close>, \<^verbatim>\<open>notFound\<close> and
  \<^verbatim>\<open>serverError\<close> of \<^verbatim>\<open>@/lib/api\<close> are not among the sources. By the specification
  (its section on external interfaces) a failure is answered with HTTP status 400 for a
  precondition failure, 404 for not-found and 500 for an unexpected failure.
\<close>

fun error_status :: "response \<Rightarrow> nat option" where
  "error_status (ok r) = None"
| "error_status (badRequest m) = Some 400"
| "error_status (notFound m) = Some 404"
| "error_status (serverError m e) = Some 500"

text \<open>
  The exact contribution of an item to the delta of a program, and the points an item moves:
  what the resolver computes as long as its sums stay exact.
\<close>

definition contribution :: "(int \<Rightarrow> int list) \<Rightarrow> item \<Rightarrow> ProgramKey \<Rightarrow> int" where
  "contribution U it k =
     (if is_canceled U it then 0
      else (if toProgramKey U (programTo it) = Some k then clampPts (pointsFinal it) else 0)
         - (if toProgramKey U (programFrom it) = Some k
            then clampPts (pointsDebitedFromOrigin it) else 0))"

text \<open>The names of the nine programs on the wire.\<close>

fun wire_name :: "ProgramKey \<Rightarrow> string" where
  "wire_name latam = ''LATAM''"
| "wire_name smiles = ''SMILES''"
| "wire_name livelo = ''LIVELO''"
| "wire_name esfera = ''ESFERA''"
| "wire_name azul = ''AZUL''"
| "wire_name iberia = ''IBERIA''"
| "wire_name aa = ''AA''"
| "wire_name tap = ''TAP''"
| "wire_name flyingBlue = ''FLYING_BLUE''"

definition moved :: "item \<Rightarrow> int" where
  "moved it = clampPts (pointsFinal it) + clampPts (pointsDebitedFromOrigin it)"

text \<open>
  The handler reaches its transaction: the request names a purchase and carries a session,
  the purchase is \<open>OPEN\<close> before and after \<open>recomputeCompra\<close>, which returns normally, and the
  re-read purchase has a cedente.
\<close>

definition reaches_transaction :: "world \<Rightarrow> request \<Rightarrow> db \<Rightarrow> bool" where
  "reaches_transaction w req d =
     (req_id req \<noteq> [] \<and> or_empty (session req) \<noteq> [] \<and>
      (case purchases d (req_id req) of
         None \<Rightarrow> False
       | Some compraBase \<Rightarrow>
          status compraBase = ''OPEN'' \<and>
          snd (recomputeCompra w (req_id req) d) = None \<and>
          (case purchases (fst (recomputeCompra w (req_id req) d)) (req_id req) of
             None \<Rightarrow> False
           | Some compra1 \<Rightarrow>
              status compra1 = ''OPEN'' \<and>
              include_cedente (fst (recomputeCompra w (req_id req) d)) compra1 \<noteq> None)))"

text \<open>
  The applied balances of a release whose transaction finds purchase \<open>p\<close> of cedente \<open>c\<close>
  in the store \<open>d\<close> (lines 70 to 114).
\<close>

abbreviation applied_at ::
  "(int \<Rightarrow> int list) \<Rightarrow> (ProgramKey \<Rightarrow> jsval) \<Rightarrow> db \<Rightarrow> string \<Rightarrow> purchase \<Rightarrow> cedente
     \<Rightarrow> ProgramKey \<Rightarrow> int" where
  "applied_at U body d i p c \<equiv>
     applied body p (\<lambda>k. clampPts (pontos c k)) (computeProgramDeltas U (include_items d i))"

text \<open>
  The invariant of the point counters: each of the nine is a non-negative integer, for every
  cedente of the store.
\<close>

definition program_keys :: "ProgramKey list" where
  "program_keys = [latam, smiles, livelo, esfera, azul, iberia, aa, tap, flyingBlue]"

fun counter_ok :: "jsval \<Rightarrow> bool" where
  "counter_ok (JNum (Fin r)) = (0 \<le> r \<and> r = of_int \<lfloor>r\<rfloor>)"
| "counter_ok v = False"

definition nonneg_counters :: "cedente \<Rightarrow> bool" where
  "nonneg_counters c = list_all (\<lambda>k. counter_ok (pontos c k)) program_keys"

definition store_nonneg :: "db \<Rightarrow> bool" where
  "store_nonneg d = (\<forall>c \<in> ran (cedentes d). nonneg_counters c)"

section \<open>A small store\<close>

text \<open>
  One open purchase \<open>p1\<close> of cedente \<open>c1\<close> with a predicted LATAM balance of 150 and 5000 cents
  payable; an item moving 50 points out of SMILES for 20 points of LATAM, a canceled item, and
  an item of another purchase. The cedente holds 10 points of SMILES and 100 of every other
  program.
\<close>

definition ex_purchase :: purchase where
  "ex_purchase =
     \<lparr>cedenteId = Some ''c1'', status = ''OPEN'',
      saldoPrevistoLatam = JNum (Fin 150), saldoPrevistoSmiles = JNull,
      saldoPrevistoLivelo = JNull, saldoPrevistoEsfera = JNull,
      saldoAplicadoLatam = JNull, saldoAplicadoSmiles = JNull,
      saldoAplicadoLivelo = JNull, saldoAplicadoEsfera = JNull,
      cedentePayCents = JNum (Fin 5000), liberadoEm = None, liberadoPorId = None\<rparr>"

definition ex_cedente :: cedente where
  "ex_cedente =
     \<lparr>nomeCompleto = ''Ana'',
      pontos = (\<lambda>k. JNum (Fin 100))(smiles := JNum (Fin 10))\<rparr>"

definition ex_item :: item where
  "ex_item =
     \<lparr>purchaseId = ''p1'', item_status = Some (asc ''PENDING''),
      programTo = Some (asc ''latam''), programFrom = Some (asc ''SMILES''),
      pointsFinal = JNum (Fin 20), pointsDebitedFromOrigin = JNum (Fin 50)\<rparr>"

definition ex_canceled :: item where
  "ex_canceled =
     \<lparr>purchaseId = ''p1'', item_status = Some (asc ''Canceled''),
      programTo = Some (asc ''LATAM''), programFrom = None,
      pointsFinal = JNum (Fin 1000), pointsDebitedFromOrigin = JUndefined\<rparr>"

definition ex_other :: item where
  "ex_other =
     \<lparr>purchaseId = ''p2'', item_status = Some (asc ''PENDING''),
      programTo = Some (asc ''AZUL''), programFrom = None,
      pointsFinal = JNum (Fin 7), pointsDebitedFromOrigin = JNull\<rparr>"

definition ex_db :: db where
  "ex_db =
     \<lparr>purchases = [''p1'' \<mapsto> ex_purchase],
      cedentes = [''c1'' \<mapsto> ex_cedente],
      items = [ex_item, ex_canceled, ex_other],
      commissions = []\<rparr>"

text \<open>An item crediting \<open>n\<close> points to LATAM, and an item naming no known program.\<close>

definition ex_credit :: "rat \<Rightarrow> item" where
  "ex_credit n =
     \<lparr>purchaseId = ''p1'', item_status = Some (asc ''PENDING''),
      programTo = Some (asc ''LATAM''), programFrom = None,
      pointsFinal = JNum (Fin n), pointsDebitedFromOrigin = JNull\<rparr>"

definition ex_unknown :: item where
  "ex_unknown =
     \<lparr>purchaseId = ''p1'', item_status = Some (asc ''PENDING''),
      programTo = Some (asc ''VARIG''), programFrom = Some [],
      pointsFinal = JNum (Fin 30), pointsDebitedFromOrigin = JNum (Fin 40)\<rparr>"

text \<open>
  A store where the purchase already has a commission, paid, next to the commission of another
  purchase; and a store where the purchase has nothing payable.
\<close>

definition ex_paid :: commission where
  "ex_paid =
     \<lparr>commission_cedenteId = Some ''c1'', commission_purchaseId = ''p1'',
      amountCents = Fin 4000, commission_status = ''PAID'', generatedById = ''u0'',
      generatedAt = 3, paidAt = Some 5, paidById = Some ''u9''\<rparr>"

definition ex_other_commission :: commission where
  "ex_other_commission =
     \<lparr>commission_cedenteId = Some ''c2'', commission_purchaseId = ''p2'',
      amountCents = Fin 100, commission_status = ''PAID'', generatedById = ''u0'',
      generatedAt = 2, paidAt = Some 4, paidById = Some ''u9''\<rparr>"

definition ex_db_paid :: db where
  "ex_db_paid = ex_db\<lparr>commissions := [ex_other_commission, ex_paid]\<rparr>"

definition ex_db_free :: db where
  "ex_db_free = ex_db\<lparr>purchases := [''p1'' \<mapsto> ex_purchase\<lparr>cedentePayCents := JNum (Fin 0)\<rparr>]\<rparr>"

text \<open>
  A world without interference and without faults, and a request without overrides. Its table
  of upper cases is an example: it holds some entries of the Unicode table (sharp s, dotless
  i, long s, the ligature fl, the letters of Latin-1) and keeps every other code point.
\<close>

definition ex_upper :: "int \<Rightarrow> int list" where
  "ex_upper c =
     (if c = 223 then [83, 83]
      else if c = 305 then [73]
      else if c = 383 then [83]
      else if c = 64258 then [70, 76]
      else if 224 \<le> c \<and> c \<le> 254 \<and> c \<noteq> 247 then [c - 32]
      else [c])"

definition ex_world :: world where
  "ex_world =
     \<lparr>recomputeCompra = (\<lambda>i d. (d, None)), concurrent = (\<lambda>d. d),
      storage_fault = (\<lambda>c. None), now = 7, upper_case = ex_upper\<rparr>"

definition ex_request :: request where
  "ex_request = \<lparr>req_id = ''p1'', session = Some ''u1'', saldosAplicados = (\<lambda>k. JUndefined)\<rparr>"

text \<open>
  Worlds with a storage error in the bulk update of the items, with another request that
  detaches the cedente from the purchase between the re-read and the transaction, and with
  another request that closes the purchase there; stores where the purchase has no cedente,
  and where it is closed.
\<close>

definition ex_world_faulty :: world where
  "ex_world_faulty =
     ex_world\<lparr>storage_fault := (\<lambda>c. None)(ItemUpdateMany := Some (Thrown ''storage error''))\<rparr>"

definition ex_world_detaching :: world where
  "ex_world_detaching =
     ex_world\<lparr>concurrent :=
       (\<lambda>d. d\<lparr>purchases := (purchases d)(''p1'' \<mapsto> ex_purchase\<lparr>cedenteId := None\<rparr>)\<rparr>)\<rparr>"

definition ex_world_closing :: world where
  "ex_world_closing =
     ex_world\<lparr>concurrent :=
       (\<lambda>d. d\<lparr>purchases := (purchases d)(''p1'' \<mapsto> ex_purchase\<lparr>status := ''CLOSED''\<rparr>)\<rparr>)\<rparr>"

definition ex_db_orphan :: db where
  "ex_db_orphan = ex_db\<lparr>purchases := [''p1'' \<mapsto> ex_purchase\<lparr>cedenteId := None\<rparr>]\<rparr>"

definition ex_db_closed :: db where
  "ex_db_closed = ex_db\<lparr>purchases := [''p1'' \<mapsto> ex_purchase\<lparr>status := ''CLOSED''\<rparr>]\<rparr>"

text \<open>The calls a transaction makes before a given call.\<close>

fun calls_before :: "tx_call \<Rightarrow> tx_call list" where
  "calls_before FindUnique = []"
| "calls_before CedenteUpdate = [FindUnique]"
| "calls_before ItemUpdateMany = [FindUnique, CedenteUpdate]"
| "calls_before PurchaseUpdate = [FindUnique, CedenteUpdate, ItemUpdateMany]"
| "calls_before CommissionUpsert = [FindUnique, CedenteUpdate, ItemUpdateMany, PurchaseUpdate]"

section \<open>The clamp and the applied balance\<close>

lemma clampPts_simps:
  "clampPts JUndefined = 0" "clampPts JNull = 0"
  "clampPts (JNum NaN) = 0" "clampPts (JNum PosInf) = 0" "clampPts (JNum NegInf) = 0"
  "clampPts (JNum (Fin r)) = max 0 (trunc r)"
  by (simp_all add: clampPts_def trunc_def)

lemma clampPts_nonneg: "0 \<le> clampPts v"
  by (cases v rule: Number.cases) (simp_all add: clampPts_def split: jsnum.splits)

lemma trunc_neg: "r < 0 \<Longrightarrow> trunc r \<le> 0"
  by (simp add: trunc_def)

lemma applied_nonneg: "0 \<le> applied body p cur d k"
  by (cases k) (simp_all add: clampPts_nonneg)

lemma applied_override: "applied (body(k := JNum n)) p cur d k = clampPts (JNum n)"
  by (cases k) simp_all

lemma applied_nullish:
  "\<not> present v \<Longrightarrow> applied (body(k := v)) p cur d k =
     clampPts (if legacy k \<and> present (predicted p k) then predicted p k
               else JNum (num_of (js_add (IFin (cur k)) (d k))))"
  by (cases k; cases v rule: present.cases; cases "predicted p k" rule: present.cases)
     (simp_all add: legacy_def computed_def)

lemma applied_spec: "applied body p cur d k = spec_applied body p cur d k"
  by (cases k; cases "body k" rule: present.cases)
     (simp_all add: spec_applied_def legacy_def computed_def,
      (cases "predicted p k" rule: present.cases; simp)+)

text \<open>
  C9. Whether an override is present is decided by its value, not by the key being there:
  a Number given as override is the applied balance once clamped, so an override of 0 forces
  the applied balance to 0 whatever the predicted and the computed balance are; an override
  that is null or undefined is skipped, and the balance comes from the next tier (the
  predicted balance of a legacy program when there is one, the computed balance otherwise);
  an override that is NaN, an infinity or negative is present and is clamped to 0.
\<close>

theorem override_presence_by_nullish_value:
  "applied (body(k := JNum n)) p cur d k = clampPts (JNum n)
   \<and> applied (body(k := JNum (Fin 0))) p cur d k = 0
   \<and> applied (body(k := JNull)) p cur d k =
       clampPts (if legacy k \<and> present (predicted p k) then predicted p k
                 else JNum (num_of (js_add (IFin (cur k)) (d k))))
   \<and> applied (body(k := JUndefined)) p cur d k =
       clampPts (if legacy k \<and> present (predicted p k) then predicted p k
                 else JNum (num_of (js_add (IFin (cur k)) (d k))))
   \<and> applied (body(k := JNum NaN)) p cur d k = 0
   \<and> applied (body(k := JNum PosInf)) p cur d k = 0
   \<and> applied (body(k := JNum NegInf)) p cur d k = 0
   \<and> (r < 0 \<longrightarrow> applied (body(k := JNum (Fin r))) p cur d k = 0)"
  using trunc_neg[of r]
  by (simp add: applied_override applied_nullish clampPts_simps trunc_def)

theorem override_presence_by_nullish_value_witness:
  "(- 5 :: rat) < 0
   \<and> applied ((\<lambda>k. JUndefined)(latam := JNum (Fin (- 5)))) ex_purchase
        (\<lambda>k. 100) (\<lambda>k. IFin 20) latam = 0
   \<and> applied ((\<lambda>k. JUndefined)(latam := JNum (Fin 0))) ex_purchase
        (\<lambda>k. 100) (\<lambda>k. IFin 20) latam = 0
   \<and> applied ((\<lambda>k. JUndefined)(latam := JNull)) ex_purchase
        (\<lambda>k. 100) (\<lambda>k. IFin 20) latam = 150"
  using override_presence_by_nullish_value
    [of "\<lambda>k. JUndefined" latam "Fin 7" ex_purchase "\<lambda>k. 100" "\<lambda>k. IFin 20" "- 5"]
  by (simp add: ex_purchase_def legacy_def clampPts_simps trunc_def)

section \<open>The handler and its transaction\<close>

lemma POST_ok_tx:
  assumes "is_ok (fst (POST w req d))"
  shows "\<exists>r. release_tx (upper_case w) (storage_fault w) (now w) (req_id req) (or_empty (session req))
              (saldosAplicados req) (snapshot w req d) = Inr (snd (POST w req d), r)
           \<and> fst (POST w req d) = ok r"
  using assms
  by (auto simp: POST_def snapshot_def transaction_def Let_def
           split: option.splits if_splits prod.splits sum.splits)

lemma POST_ok_reaches:
  assumes "is_ok (fst (POST w req d))"
  shows "reaches_transaction w req d"
  using assms
  by (auto simp: POST_def reaches_transaction_def findUnique_def transaction_def Let_def
           split: option.splits if_splits prod.splits sum.splits)

lemma POST_reaches:
  assumes "reaches_transaction w req d"
  shows "POST w req d =
     (case release_tx (upper_case w) (storage_fault w) (now w) (req_id req) (or_empty (session req))
              (saldosAplicados req) (snapshot w req d) of
        Inl e \<Rightarrow> (serverError FalhaAoLiberarCompra e, snapshot w req d)
      | Inr (d', r) \<Rightarrow> (ok r, d'))"
  using assms
  by (auto simp: POST_def reaches_transaction_def findUnique_def transaction_def Let_def
                 snapshot_def
           split: option.splits if_splits prod.splits sum.splits)

lemma POST_not_ok_store:
  assumes "\<not> is_ok (fst (POST w req d))"
  shows "snd (POST w req d) = d
       \<or> snd (POST w req d) = fst (recomputeCompra w (req_id req) d)
       \<or> snd (POST w req d) = snapshot w req d"
  using assms
  by (auto simp: POST_def findUnique_def transaction_def Let_def snapshot_def
           split: option.splits if_splits prod.splits sum.splits)

lemma release_tx_Inr:
  assumes "release_tx U F t i u body d0 = Inr (d', r)"
  obtains p cid c where
    "purchases d0 i = Some p" "status p = ''OPEN''" "cedenteId p = Some cid"
    "cedentes d0 cid = Some c"
    "commission_step F t u i (close_data t u (applied_at U body d0 i p c) p)
       (d0\<lparr>cedentes := (cedentes d0)
              (cid \<mapsto> c\<lparr>pontos := (\<lambda>k. JNum (Fin (of_int (applied_at U body d0 i p c k))))\<rparr>),
           items := map (release_item i) (items d0),
           purchases := (purchases d0)(i \<mapsto> close_data t u (applied_at U body d0 i p c) p)\<rparr>)
     = Inr (d', r)"
  using assms
  by (auto simp: release_tx_def findUnique_def include_cedente_def Let_def
                 cedente_update_def item_updateMany_def purchase_update_def
           split: option.splits if_splits prod.splits sum.splits)

lemma commission_step_frame:
  assumes "commission_step F t u i cp d = Inr (d', r)"
  shows "purchases d' = purchases d" "cedentes d' = cedentes d" "items d' = items d"
  using assms
  by (auto simp: commission_step_def commission_upsert_def Let_def
           split: option.splits if_splits prod.splits sum.splits)

lemma release_tx_store:
  assumes "release_tx U F t i u body d0 = Inr (d', r)"
    and "purchases d0 i = Some p" "cedenteId p = Some cid" "cedentes d0 cid = Some c"
  shows "cedentes d' = (cedentes d0)
            (cid \<mapsto> c\<lparr>pontos := (\<lambda>k. JNum (Fin (of_int (applied_at U body d0 i p c k))))\<rparr>)"
    and "items d' = map (release_item i) (items d0)"
    and "purchases d' = (purchases d0)(i \<mapsto> close_data t u (applied_at U body d0 i p c) p)"
    and "status p = ''OPEN''"
proof -
  from assms(1) obtain p' cid' c' where s:
    "purchases d0 i = Some p'" "status p' = ''OPEN''" "cedenteId p' = Some cid'"
    "cedentes d0 cid' = Some c'"
    "commission_step F t u i (close_data t u (applied_at U body d0 i p' c') p')
       (d0\<lparr>cedentes := (cedentes d0)
              (cid' \<mapsto> c'\<lparr>pontos := (\<lambda>k. JNum (Fin (of_int (applied_at U body d0 i p' c' k))))\<rparr>),
           items := map (release_item i) (items d0),
           purchases := (purchases d0)(i \<mapsto> close_data t u (applied_at U body d0 i p' c') p')\<rparr>)
     = Inr (d', r)"
    by (rule release_tx_Inr)
  from s assms have e: "p' = p" "cid' = cid" "c' = c" by simp_all
  note f = commission_step_frame[OF s(5)]
  show "cedentes d' = (cedentes d0)
            (cid \<mapsto> c\<lparr>pontos := (\<lambda>k. JNum (Fin (of_int (applied_at U body d0 i p c k))))\<rparr>)"
    using f(2) e by simp
  show "items d' = map (release_item i) (items d0)" using f(3) by simp
  show "purchases d' = (purchases d0)(i \<mapsto> close_data t u (applied_at U body d0 i p c) p)"
    using f(1) e by simp
  show "status p = ''OPEN''" using s(2) e by simp
qed

lemma POST_ok_store:
  assumes "is_ok (fst (POST w req d))"
    and "purchases (snapshot w req d) (req_id req) = Some p" "cedenteId p = Some cid"
    and "cedentes (snapshot w req d) cid = Some c"
  shows "cedentes (snd (POST w req d)) = (cedentes (snapshot w req d))
            (cid \<mapsto> c\<lparr>pontos := (\<lambda>k. JNum (Fin (of_int
               (applied_at (upper_case w) (saldosAplicados req) (snapshot w req d) (req_id req) p c k))))\<rparr>)"
    and "items (snd (POST w req d)) = map (release_item (req_id req)) (items (snapshot w req d))"
    and "purchases (snd (POST w req d)) = (purchases (snapshot w req d))
           (req_id req \<mapsto> close_data (now w) (or_empty (session req))
               (applied_at (upper_case w) (saldosAplicados req) (snapshot w req d) (req_id req) p c) p)"
    and "status p = ''OPEN''"
proof -
  from POST_ok_tx[OF assms(1)] obtain r where
    "release_tx (upper_case w) (storage_fault w) (now w) (req_id req) (or_empty (session req))
              (saldosAplicados req) (snapshot w req d) = Inr (snd (POST w req d), r)"
    by blast
  note s = release_tx_store[OF this assms(2,3,4)]
  show "cedentes (snd (POST w req d)) = (cedentes (snapshot w req d))
            (cid \<mapsto> c\<lparr>pontos := (\<lambda>k. JNum (Fin (of_int
               (applied_at (upper_case w) (saldosAplicados req) (snapshot w req d) (req_id req) p c k))))\<rparr>)"
    by (rule s(1))
  show "items (snd (POST w req d)) = map (release_item (req_id req)) (items (snapshot w req d))"
    by (rule s(2))
  show "purchases (snd (POST w req d)) = (purchases (snapshot w req d))
           (req_id req \<mapsto> close_data (now w) (or_empty (session req))
               (applied_at (upper_case w) (saldosAplicados req) (snapshot w req d) (req_id req) p c) p)"
    by (rule s(3))
  show "status p = ''OPEN''" by (rule s(4))
qed

lemma POST_ok_snapshot:
  assumes "is_ok (fst (POST w req d))"
  shows "\<exists>p cid c. purchases (snapshot w req d) (req_id req) = Some p \<and> cedenteId p = Some cid
          \<and> cedentes (snapshot w req d) cid = Some c"
proof -
  from POST_ok_tx[OF assms(1)] obtain r where
    "release_tx (upper_case w) (storage_fault w) (now w) (req_id req) (or_empty (session req))
              (saldosAplicados req) (snapshot w req d) = Inr (snd (POST w req d), r)"
    by blast
  then show ?thesis by (rule release_tx_Inr) blast
qed

lemma nonneg_counters_applied:
  "nonneg_counters (c\<lparr>pontos := (\<lambda>k. JNum (Fin (of_int (applied body p cur dl k))))\<rparr>)"
  by (simp add: nonneg_counters_def program_keys_def applied_nonneg del: applied.simps)

section \<open>Non-negative counters\<close>

lemma round_double_exact: "\<bar>n\<bar> \<le> 2 ^ 53 \<Longrightarrow> round_double n = IFin n"
  by (simp add: round_double_def)

lemma store_nonneg_upd:
  assumes "store_nonneg d0" "nonneg_counters c'" "cedentes d' = (cedentes d0)(cid \<mapsto> c')"
  shows "store_nonneg d'"
  using assms by (auto simp: store_nonneg_def ran_def split: if_splits)

lemma POST_store_nonneg:
  assumes r: "\<forall>x. store_nonneg x \<longrightarrow> store_nonneg (fst (recomputeCompra w (req_id req) x))"
    and c: "\<forall>x. store_nonneg x \<longrightarrow> store_nonneg (concurrent w x)"
    and d: "store_nonneg d"
  shows "store_nonneg (snd (POST w req d))"
proof (cases "is_ok (fst (POST w req d))")
  case True
  from r c d have s: "store_nonneg (snapshot w req d)" by (simp add: snapshot_def)
  from POST_ok_snapshot[OF True] obtain p cid c where
    h: "purchases (snapshot w req d) (req_id req) = Some p" "cedenteId p = Some cid"
       "cedentes (snapshot w req d) cid = Some c"
    by blast
  show ?thesis
    by (rule store_nonneg_upd[OF s nonneg_counters_applied POST_ok_store(1)[OF True h]])
next
  case False
  from r c d have "store_nonneg (fst (recomputeCompra w (req_id req) d))"
    "store_nonneg (snapshot w req d)" by (simp_all add: snapshot_def)
  with d POST_not_ok_store[OF False] show ?thesis by auto
qed

lemma POST_ok_counters:
  assumes "is_ok (fst (POST w req d))"
    and "purchases (snapshot w req d) (req_id req) = Some p" "cedenteId p = Some cid"
  shows "\<exists>c. cedentes (snd (POST w req d)) cid = Some c \<and> nonneg_counters c"
proof -
  from POST_ok_snapshot[OF assms(1)] assms(2,3) obtain c where
    h: "cedentes (snapshot w req d) cid = Some c"
    by auto
  from POST_ok_store(1)[OF assms h] show ?thesis
    using nonneg_counters_applied by simp
qed

lemma applied_negative_sum:
  assumes "cur k = 10" "dl k = IFin (- 50)" "\<not> present (body k)" "\<not> present (predicted p k)"
  shows "applied body p cur dl k = 0"
  using assms
  by (simp add: applied_spec spec_applied_def round_double_exact clampPts_simps trunc_def)

text \<open>
  C5. Every applied balance is a non-negative integer, also where the inputs compute a
  negative value (a current balance of 10 with a delta of -50 gives 0), so the nine counters a
  successful release writes to the cedente are non-negative integers whatever they were
  before; and when the collaborator and the other writers keep the counters of every cedente
  non-negative, so does a release, however it ends.
\<close>

theorem counters_never_negative:
  "0 \<le> applied body p cur dl k
   \<and> (cur k = 10 \<longrightarrow> dl k = IFin (- 50) \<longrightarrow> \<not> present (body k) \<longrightarrow> \<not> present (predicted p k)
        \<longrightarrow> applied body p cur dl k = 0)
   \<and> (is_ok (fst (POST w req d)) \<longrightarrow> purchases (snapshot w req d) (req_id req) = Some p'
        \<longrightarrow> cedenteId p' = Some cid
        \<longrightarrow> (\<exists>c. cedentes (snd (POST w req d)) cid = Some c \<and> nonneg_counters c))
   \<and> ((\<forall>x. store_nonneg x \<longrightarrow> store_nonneg (fst (recomputeCompra w (req_id req) x)))
        \<longrightarrow> (\<forall>x. store_nonneg x \<longrightarrow> store_nonneg (concurrent w x))
        \<longrightarrow> store_nonneg d \<longrightarrow> store_nonneg (snd (POST w req d)))"
  using applied_nonneg[of body p cur dl k] applied_negative_sum[of cur k dl body p]
    POST_ok_counters[of w req d p' cid] POST_store_nonneg[of w req d]
  by blast

lemma ex_ok: "is_ok (fst (POST ex_world ex_request ex_db))"
  by code_simp

lemma ex_store_nonneg: "store_nonneg ex_db"
  by (simp add: store_nonneg_def ex_db_def ex_cedente_def nonneg_counters_def program_keys_def)

theorem counters_never_negative_witness:
  "applied (\<lambda>k. JUndefined) ex_purchase (\<lambda>k. 10) (\<lambda>k. IFin (- 50)) smiles = 0
   \<and> is_ok (fst (POST ex_world ex_request ex_db))
   \<and> (\<exists>c. cedentes (snd (POST ex_world ex_request ex_db)) ''c1'' = Some c \<and> nonneg_counters c)
   \<and> nonneg_counters ex_cedente"
proof -
  have a: "purchases (snapshot ex_world ex_request ex_db) (req_id ex_request) = Some ex_purchase"
    by (simp add: snapshot_def ex_world_def ex_request_def ex_db_def)
  have b: "cedenteId ex_purchase = Some ''c1''" by (simp add: ex_purchase_def)
  have c: "\<not> present (predicted ex_purchase smiles)" by (simp add: ex_purchase_def)
  have e: "\<forall>x. store_nonneg x \<longrightarrow> store_nonneg (fst (recomputeCompra ex_world (req_id ex_request) x))"
    "\<forall>x. store_nonneg x \<longrightarrow> store_nonneg (concurrent ex_world x)"
    by (simp_all add: ex_world_def)
  from counters_never_negative
    [of "\<lambda>k. JUndefined" ex_purchase "\<lambda>k. 10" "\<lambda>k. IFin (- 50)" smiles
        ex_world ex_request ex_db ex_purchase "''c1''"]
    a b c e ex_ok ex_store_nonneg
  have "store_nonneg (snd (POST ex_world ex_request ex_db))"
    and "applied (\<lambda>k. JUndefined) ex_purchase (\<lambda>k. 10) (\<lambda>k. IFin (- 50)) smiles = 0"
    and x: "\<exists>c. cedentes (snd (POST ex_world ex_request ex_db)) ''c1'' = Some c
            \<and> nonneg_counters c"
    by simp_all
  moreover have "nonneg_counters ex_cedente"
    by (simp add: ex_cedente_def nonneg_counters_def program_keys_def)
  ultimately show ?thesis using ex_ok by blast
qed

section \<open>Precedence of the applied balance\<close>

lemma applied_legacy_examples:
  assumes "legacy k" "predicted p k = JNum (Fin 150)"
  shows "applied (body(k := JUndefined)) p (cur(k := 100)) (dl(k := IFin 20)) k = 150"
    and "applied (body(k := JNum (Fin 999))) p (cur(k := 100)) (dl(k := IFin 20)) k = 999"
  using assms by (simp_all add: applied_spec spec_applied_def clampPts_simps trunc_def)

lemma applied_not_legacy:
  assumes "\<not> legacy k"
  shows "applied body p cur dl k =
     clampPts (if present (body k) then body k
               else JNum (num_of (js_add (IFin (cur k)) (dl k))))"
  using assms by (simp add: applied_spec spec_applied_def)

lemma POST_ok_applied:
  assumes "is_ok (fst (POST w req d))"
    and "purchases (snapshot w req d) (req_id req) = Some p" "cedenteId p = Some cid"
    and "cedentes (snapshot w req d) cid = Some c"
  shows "\<exists>c'. cedentes (snd (POST w req d)) cid = Some c' \<and>
           pontos c' k = JNum (Fin (of_int
             (spec_applied (saldosAplicados req) p (\<lambda>k. clampPts (pontos c k))
                (computeProgramDeltas (upper_case w) (include_items (snapshot w req d) (req_id req))) k)))"
  using POST_ok_store(1)[OF assms] by (simp add: applied_spec del: applied.simps)

text \<open>
  C1. The applied balance of each of the nine programs is the specification's three-tier
  value: the override of the request when present, else for LATAM, SMILES, LIVELO and ESFERA
  the predicted balance of the purchase when present, else the clamped current balance plus
  the delta; the value found is clamped. With a current balance of 100, a delta of 20 and a
  predicted balance of 150 the result is 150, and 999 under an override of 999. For the five
  other programs the purchase plays no part. A successful release writes exactly these
  values, computed from the purchase, the cedente and the items its transaction read.
\<close>

theorem applied_balance_precedence:
  "applied body p cur dl k = spec_applied body p cur dl k
   \<and> (legacy k \<longrightarrow> predicted p k = JNum (Fin 150) \<longrightarrow>
        applied (body(k := JUndefined)) p (cur(k := 100)) (dl(k := IFin 20)) k = 150
        \<and> applied (body(k := JNum (Fin 999))) p (cur(k := 100)) (dl(k := IFin 20)) k = 999)
   \<and> (\<not> legacy k' \<longrightarrow>
        applied body p cur dl k' =
          clampPts (if present (body k') then body k'
                    else JNum (num_of (js_add (IFin (cur k')) (dl k')))))
   \<and> (is_ok (fst (POST w req d)) \<longrightarrow> purchases (snapshot w req d) (req_id req) = Some p'
        \<longrightarrow> cedenteId p' = Some cid \<longrightarrow> cedentes (snapshot w req d) cid = Some c
        \<longrightarrow> (\<exists>c'. cedentes (snd (POST w req d)) cid = Some c' \<and>
               pontos c' k = JNum (Fin (of_int
                 (spec_applied (saldosAplicados req) p' (\<lambda>k. clampPts (pontos c k))
                    (computeProgramDeltas (upper_case w) (include_items (snapshot w req d) (req_id req)))
                    k)))))"
  using applied_spec[of body p cur dl k] applied_legacy_examples[of k p body cur dl]
    applied_not_legacy[of k' body p cur dl] POST_ok_applied[of w req d p' cid c k]
  by blast

theorem applied_balance_precedence_witness:
  "legacy latam \<and> predicted ex_purchase latam = JNum (Fin 150) \<and> \<not> legacy azul
   \<and> applied (\<lambda>k. JUndefined) ex_purchase (\<lambda>k. 100) (\<lambda>k. IFin 20) latam = 150
   \<and> applied ((\<lambda>k. JUndefined)(latam := JNum (Fin 999))) ex_purchase
        (\<lambda>k. 100) (\<lambda>k. IFin 20) latam = 999
   \<and> applied (\<lambda>k. JUndefined) ex_purchase (\<lambda>k. 100) (\<lambda>k. IFin 20) azul = 120
   \<and> is_ok (fst (POST ex_world ex_request ex_db))
   \<and> (\<exists>c'. cedentes (snd (POST ex_world ex_request ex_db)) ''c1'' = Some c'
          \<and> pontos c' latam = JNum (Fin 150))"
proof -
  have a: "purchases (snapshot ex_world ex_request ex_db) (req_id ex_request) = Some ex_purchase"
    "cedentes (snapshot ex_world ex_request ex_db) ''c1'' = Some ex_cedente"
    by (simp_all add: snapshot_def ex_world_def ex_request_def ex_db_def)
  have b: "cedenteId ex_purchase = Some ''c1''" "predicted ex_purchase latam = JNum (Fin 150)"
    by (simp_all add: ex_purchase_def)
  have l: "legacy latam" "\<not> legacy azul" by (simp_all add: legacy_def)
  have u: "(\<lambda>k. JUndefined)(latam := JUndefined) = (\<lambda>k. JUndefined)"
    "(\<lambda>k. 100::int)(latam := 100) = (\<lambda>k. 100)"
    "(\<lambda>k. IFin 20)(latam := IFin 20) = (\<lambda>k. IFin 20)"
    by auto
  have s: "spec_applied (saldosAplicados ex_request) ex_purchase
       (\<lambda>k. clampPts (pontos ex_cedente k)) dl latam = 150" for dl
    by (simp add: spec_applied_def ex_request_def ex_purchase_def legacy_def clampPts_simps
        trunc_def)
  from applied_balance_precedence
    [of "\<lambda>k. JUndefined" ex_purchase "\<lambda>k. 100" "\<lambda>k. IFin 20" latam azul
        ex_world ex_request ex_db ex_purchase "''c1''" ex_cedente]
    a b l ex_ok
  show ?thesis
    by (simp add: u s round_double_exact clampPts_simps trunc_def)
qed

section \<open>The Delta Resolver\<close>

lemma computeProgramDeltas_Nil: "computeProgramDeltas U [] k = IFin 0"
  by (simp add: computeProgramDeltas_def)

lemma delta_loop_append:
  "delta_loop U out (xs @ ys) = delta_loop U (delta_loop U out xs) ys"
  by (induction xs arbitrary: out) simp_all

lemma computeProgramDeltas_snoc:
  "computeProgramDeltas U (its @ [it]) = delta_step U (computeProgramDeltas U its) it"
  by (simp add: computeProgramDeltas_def delta_loop_append)

lemma delta_step_canceled: "is_canceled U it \<Longrightarrow> delta_step U out it = out"
  by (simp add: delta_step_def)

lemma delta_loop_canceled:
  "delta_loop U out (filter (\<lambda>it. \<not> is_canceled U it) its) = delta_loop U out its"
  by (induction its arbitrary: out) (simp_all add: delta_step_canceled)

lemma delta_step_key:
  assumes "\<not> is_canceled U it"
  shows "delta_step U out it k =
     (let credited =
            (if toProgramKey U (programTo it) = Some k
             then js_add (out k) (IFin (clampPts (pointsFinal it))) else out k)
      in if toProgramKey U (programFrom it) = Some k
         then js_sub credited (IFin (clampPts (pointsDebitedFromOrigin it))) else credited)"
  using assms
  by (auto simp: delta_step_def credit_def debit_def Let_def split: option.splits)

lemma delta_step_unresolved:
  assumes "toProgramKey U (programTo it) = None" "toProgramKey U (programFrom it) = None"
  shows "delta_step U out it = out"
  using assms by (simp add: delta_step_def credit_def debit_def)

subsection \<open>Names\<close>

lemma upper_point_ascii_upper: "upper_point U (ascii_upper c) = upper_point U c"
  by (simp add: upper_point_def ascii_upper_def)

lemma is_space_ascii_upper: "is_space (ascii_upper c) = is_space c"
proof (cases "97 \<le> c \<and> c \<le> 122")
  case True
  then have "\<not> is_space c" "\<not> is_space (c - 32)"
    unfolding is_space_def by auto
  with True show ?thesis by (simp add: ascii_upper_def)
next
  case False
  then show ?thesis by (auto simp: ascii_upper_def)
qed

lemma toUpperCase_ascii_upper: "toUpperCase U (map ascii_upper s) = toUpperCase U s"
  by (simp add: toUpperCase_def comp_def upper_point_ascii_upper)

lemma trim_ascii_upper: "trim (map ascii_upper s) = map ascii_upper (trim s)"
proof -
  have c: "is_space \<circ> ascii_upper = is_space" by (rule ext) (simp add: is_space_ascii_upper)
  show ?thesis
    by (simp add: trim_def rev_map dropWhile_map c)
qed

lemma toProgramKey_ascii_upper:
  "toProgramKey U (Some (map ascii_upper s)) = toProgramKey U (Some s)"
  by (simp add: toProgramKey_def trim_ascii_upper toUpperCase_ascii_upper)

lemma toProgramKey_case:
  assumes "map ascii_upper s = map ascii_upper s'"
  shows "toProgramKey U (Some s) = toProgramKey U (Some s')"
  using toProgramKey_ascii_upper[of U s] toProgramKey_ascii_upper[of U s'] assms by simp

lemma is_canceled_case:
  assumes "map ascii_upper s = map ascii_upper s'"
  shows "is_canceled U (it\<lparr>item_status := Some s\<rparr>) = is_canceled U (it\<lparr>item_status := Some s'\<rparr>)"
  using toUpperCase_ascii_upper[of U s] toUpperCase_ascii_upper[of U s'] assms
  by (simp add: is_canceled_def)

lemma trim_spaces:
  assumes "list_all is_space ws" "list_all is_space ws'"
  shows "trim (ws @ s @ ws') = trim s"
proof -
  from assms(1) have a: "dropWhile is_space (ws @ s @ ws') = dropWhile is_space (s @ ws')"
    by (intro dropWhile_append2) (simp add: list_all_iff)
  show ?thesis
  proof (cases "list_all is_space s")
    case True
    with assms(2) have "\<forall>x \<in> set (s @ ws'). is_space x" by (auto simp: list_all_iff)
    then have 1: "dropWhile is_space (s @ ws') = []"
      by (simp only: dropWhile_eq_Nil_conv)
    from True have "\<forall>x \<in> set s. is_space x" by (simp add: list_all_iff)
    then have 2: "dropWhile is_space s = []"
      by (simp only: dropWhile_eq_Nil_conv)
    show ?thesis unfolding trim_def a 1 2 by simp
  next
    case False
    then obtain x where "x \<in> set s" "\<not> is_space x" by (auto simp: list_all_iff)
    then have 1: "dropWhile is_space (s @ ws') = dropWhile is_space s @ ws'"
      by (rule dropWhile_append1)
    from assms(2)
    have 2: "dropWhile is_space (rev ws' @ rev (dropWhile is_space s))
        = dropWhile is_space (rev (dropWhile is_space s))"
      by (intro dropWhile_append2) (simp add: list_all_iff)
    show ?thesis unfolding trim_def a 1 rev_append 2 by (rule refl)
  qed
qed

lemma toProgramKey_spaces:
  assumes "list_all is_space ws" "list_all is_space ws'"
  shows "toProgramKey U (Some (ws @ s @ ws')) = toProgramKey U (Some s)"
  by (simp add: toProgramKey_def trim_spaces[OF assms])

lemma toUpperCase_ascii: "list_all (\<lambda>c. c < 128) s \<Longrightarrow> toUpperCase U s = map ascii_upper s"
  by (induction s) (simp_all add: toUpperCase_def upper_point_def)

lemma set_trim: "x \<in> set (trim s) \<Longrightarrow> x \<in> set s"
proof -
  assume "x \<in> set (trim s)"
  then have "x \<in> set (dropWhile is_space (rev (dropWhile is_space s)))"
    by (simp add: trim_def)
  then have "x \<in> set (rev (dropWhile is_space s))" by (rule set_dropWhileD)
  then have "x \<in> set (dropWhile is_space s)" by simp
  then show "x \<in> set s" by (rule set_dropWhileD)
qed

lemma list_all_trim: "list_all P s \<Longrightarrow> list_all P (trim s)"
  by (auto simp: list_all_iff dest: set_trim)

lemma toProgramKey_ascii:
  assumes "list_all (\<lambda>c. c < 128) s"
  shows "toProgramKey U (Some s) = toProgramKey (\<lambda>c. [c]) (Some s)"
  using toUpperCase_ascii[OF list_all_trim[OF assms]]
  by (simp add: toProgramKey_def)

lemma asc_eq_iff: "asc s = asc t \<longleftrightarrow> s = t"
  by (simp add: asc_def inj_map_eq_map[OF inj_of_char])

lemma toProgramKey_iff:
  "toProgramKey U v = Some k \<longleftrightarrow> toUpperCase U (trim (or_empty v)) = asc (wire_name k)"
  by (cases k) (auto simp: toProgramKey_def Let_def asc_eq_iff)

lemma asc_wire_ascii: "list_all (\<lambda>c. c < 128) (asc (wire_name k))"
  by (induct k) code_simp+

lemma toProgramKey_wire_id: "toProgramKey (\<lambda>c. [c]) (Some (asc (wire_name k))) = Some k"
  by (induct k) code_simp+

lemma toProgramKey_wire: "toProgramKey U (Some (asc (wire_name k))) = Some k"
  using toProgramKey_ascii[OF asc_wire_ascii, of U k] toProgramKey_wire_id[of k] by simp

subsection \<open>Exact sums\<close>

lemma contribution_le_moved: "\<bar>contribution U it k\<bar> \<le> moved it"
  using clampPts_nonneg[of "pointsFinal it"] clampPts_nonneg[of "pointsDebitedFromOrigin it"]
  by (auto simp: contribution_def moved_def)

lemma moved_nonneg: "0 \<le> moved it"
  using clampPts_nonneg[of "pointsFinal it"] clampPts_nonneg[of "pointsDebitedFromOrigin it"]
  by (simp add: moved_def)

lemma delta_step_exact:
  assumes o: "\<forall>k. out k = IFin (a k)" and b: "\<forall>k. \<bar>a k\<bar> + moved it \<le> 2 ^ 53"
  shows "delta_step U out it k = IFin (a k + contribution U it k)"
proof (cases "is_canceled U it")
  case True
  then show ?thesis using o by (simp add: delta_step_def contribution_def)
next
  case False
  have f: "0 \<le> clampPts (pointsFinal it)" and g: "0 \<le> clampPts (pointsDebitedFromOrigin it)"
    by (rule clampPts_nonneg)+
  from b have bk: "\<bar>a k\<bar> + (clampPts (pointsFinal it) + clampPts (pointsDebitedFromOrigin it))
      \<le> 2 ^ 53"
    by (simp add: moved_def)
  have 1: "round_double (a k + clampPts (pointsFinal it)) = IFin (a k + clampPts (pointsFinal it))"
    using f g bk by (intro round_double_exact) linarith
  have 2: "round_double (a k - clampPts (pointsDebitedFromOrigin it))
      = IFin (a k - clampPts (pointsDebitedFromOrigin it))"
    using f g bk by (intro round_double_exact) linarith
  have 3: "round_double (a k + clampPts (pointsFinal it) - clampPts (pointsDebitedFromOrigin it))
      = IFin (a k + clampPts (pointsFinal it) - clampPts (pointsDebitedFromOrigin it))"
    using f g bk by (intro round_double_exact) linarith
  show ?thesis
    using False o 1 2 3
    by (simp add: delta_step_key contribution_def js_sub_def Let_def)
qed

lemma delta_loop_exact:
  assumes "\<forall>k. out k = IFin (a k)" "\<forall>k. \<bar>a k\<bar> + sum_list (map moved its) \<le> 2 ^ 53"
  shows "delta_loop U out its k = IFin (a k + sum_list (map (\<lambda>it. contribution U it k) its))"
  using assms
proof (induction its arbitrary: out a)
  case Nil
  then show ?case by simp
next
  case (Cons it its)
  have m: "0 \<le> sum_list (map moved its)"
    by (rule sum_list_nonneg) (auto simp: moved_nonneg)
  have b: "\<forall>k. \<bar>a k\<bar> + moved it \<le> 2 ^ 53"
  proof
    fix k
    from Cons.prems(2) have "\<bar>a k\<bar> + (moved it + sum_list (map moved its)) \<le> 2 ^ 53"
      by simp
    with m show "\<bar>a k\<bar> + moved it \<le> 2 ^ 53" by linarith
  qed
  have s: "\<forall>k. delta_step U out it k = IFin (a k + contribution U it k)"
    using delta_step_exact[OF Cons.prems(1) b] by simp
  have "\<forall>k. \<bar>a k + contribution U it k\<bar> + sum_list (map moved its) \<le> 2 ^ 53"
  proof
    fix k
    from Cons.prems(2) have "\<bar>a k\<bar> + (moved it + sum_list (map moved its)) \<le> 2 ^ 53"
      by simp
    with contribution_le_moved[of U it k]
    show "\<bar>a k + contribution U it k\<bar> + sum_list (map moved its) \<le> 2 ^ 53"
      by linarith
  qed
  from Cons.IH[OF s this] show ?case by (simp add: add.assoc)
qed

lemma computeProgramDeltas_exact:
  assumes "sum_list (map moved its) \<le> 2 ^ 53"
  shows "computeProgramDeltas U its k = IFin (sum_list (map (\<lambda>it. contribution U it k) its))"
  using delta_loop_exact[of "\<lambda>k. IFin 0" "\<lambda>k. 0" its U k] assms
  by (simp add: computeProgramDeltas_def)

lemma sum_list_mset_cong:
  fixes f :: "'a \<Rightarrow> int"
  assumes "mset xs = mset ys"
  shows "sum_list (map f xs) = sum_list (map f ys)"
proof -
  have "sum_list (map f xs) = sum_mset (image_mset f (mset xs))"
    by (simp add: sum_mset_sum_list[symmetric])
  also have "\<dots> = sum_mset (image_mset f (mset ys))" by (simp add: assms)
  also have "\<dots> = sum_list (map f ys)" by (simp add: sum_mset_sum_list[symmetric])
  finally show ?thesis .
qed

lemma computeProgramDeltas_permute:
  assumes "sum_list (map moved its) \<le> 2 ^ 53" "mset its' = mset its"
  shows "computeProgramDeltas U its' = computeProgramDeltas U its"
proof
  fix k
  from assms have "sum_list (map moved its') \<le> 2 ^ 53"
    by (simp add: sum_list_mset_cong[OF assms(2)])
  then show "computeProgramDeltas U its' k = computeProgramDeltas U its k"
    using assms by (simp add: computeProgramDeltas_exact sum_list_mset_cong[OF assms(2)])
qed

lemma clampPts_not_finite: "\<not> isFinite (Number v) \<Longrightarrow> clampPts v = 0"
  by (simp add: clampPts_def)

lemma clampPts_finite:
  "Number v = Fin r \<Longrightarrow> clampPts v = max 0 (if r < 0 then - \<lfloor>- r\<rfloor> else \<lfloor>r\<rfloor>)"
  by (simp add: clampPts_def trunc_def ceiling_def)

text \<open>
  C2. Whatever the tables of the runtime hold for the upper case beyond ASCII: the resolver
  returns a delta for each of the nine keys, all zero for no items. A canceled item (its
  status compared in upper case) changes nothing, whatever its fields hold. An item that is
  not canceled adds \<open>clampPts pointsFinal\<close> to the delta of the program its \<open>programTo\<close>
  resolves to, then subtracts \<open>clampPts pointsDebitedFromOrigin\<close> from the delta of the
  program its \<open>programFrom\<close> resolves to, by JavaScript's sum; a name that does not resolve
  changes nothing. While the points moved sum to at most \<open>2 ^ 53\<close> the deltas are the exact
  sums of the contributions. A name resolves to a program exactly when, trimmed and put in
  upper case, it is the wire name of the program, \<open>FLYING_BLUE\<close> for \<open>flyingBlue\<close>; each of the
  nine wire names resolves to its program; names that differ in the case of ASCII letters
  only resolve alike, and statuses that differ so are canceled alike; white space around a
  name plays no part. The clamp is 0 on a value that is not finite, and else the value
  truncated toward zero, or 0 when that is negative.
\<close>

theorem delta_resolver_correct:
  "computeProgramDeltas U [] k = IFin 0
   \<and> (is_canceled U it \<longrightarrow> computeProgramDeltas U (its @ [it]) = computeProgramDeltas U its)
   \<and> computeProgramDeltas U (filter (\<lambda>x. \<not> is_canceled U x) its) = computeProgramDeltas U its
   \<and> (\<not> is_canceled U it' \<longrightarrow>
        computeProgramDeltas U (its @ [it']) k =
          (let credited =
                 (if toProgramKey U (programTo it') = Some k
                  then js_add (computeProgramDeltas U its k) (IFin (clampPts (pointsFinal it')))
                  else computeProgramDeltas U its k)
           in if toProgramKey U (programFrom it') = Some k
              then js_sub credited (IFin (clampPts (pointsDebitedFromOrigin it')))
              else credited))
   \<and> (toProgramKey U (programTo it'') = None \<longrightarrow> toProgramKey U (programFrom it'') = None \<longrightarrow>
        computeProgramDeltas U (its @ [it'']) = computeProgramDeltas U its)
   \<and> (sum_list (map moved its) \<le> 2 ^ 53 \<longrightarrow>
        computeProgramDeltas U its k = IFin (sum_list (map (\<lambda>x. contribution U x k) its)))
   \<and> (toProgramKey U n = Some k \<longleftrightarrow> toUpperCase U (trim (or_empty n)) = asc (wire_name k))
   \<and> toProgramKey U (Some (asc (wire_name k))) = Some k
   \<and> (map ascii_upper s = map ascii_upper s' \<longrightarrow>
        toProgramKey U (Some s) = toProgramKey U (Some s')
        \<and> is_canceled U (it\<lparr>item_status := Some s\<rparr>)
            = is_canceled U (it\<lparr>item_status := Some s'\<rparr>))
   \<and> (list_all is_space ws \<longrightarrow> list_all is_space ws' \<longrightarrow>
        toProgramKey U (Some (ws @ s @ ws')) = toProgramKey U (Some s))
   \<and> (\<not> isFinite (Number v') \<longrightarrow> clampPts v' = 0)
   \<and> (Number v = Fin r \<longrightarrow> clampPts v = max 0 (if r < 0 then - \<lfloor>- r\<rfloor> else \<lfloor>r\<rfloor>))"
proof -
  have 1: "is_canceled U it \<longrightarrow> computeProgramDeltas U (its @ [it]) = computeProgramDeltas U its"
    by (simp add: computeProgramDeltas_snoc delta_step_canceled)
  have 2: "computeProgramDeltas U (filter (\<lambda>x. \<not> is_canceled U x) its)
      = computeProgramDeltas U its"
    by (simp add: computeProgramDeltas_def delta_loop_canceled)
  have 3: "\<not> is_canceled U it' \<longrightarrow>
        computeProgramDeltas U (its @ [it']) k =
          (let credited =
                 (if toProgramKey U (programTo it') = Some k
                  then js_add (computeProgramDeltas U its k) (IFin (clampPts (pointsFinal it')))
                  else computeProgramDeltas U its k)
           in if toProgramKey U (programFrom it') = Some k
              then js_sub credited (IFin (clampPts (pointsDebitedFromOrigin it')))
              else credited)"
    by (simp only: computeProgramDeltas_snoc) (simp add: delta_step_key)
  have 4: "toProgramKey U (programTo it'') = None \<longrightarrow> toProgramKey U (programFrom it'') = None \<longrightarrow>
        computeProgramDeltas U (its @ [it'']) = computeProgramDeltas U its"
    by (simp add: computeProgramDeltas_snoc delta_step_unresolved)
  have 5: "sum_list (map moved its) \<le> 2 ^ 53 \<longrightarrow>
        computeProgramDeltas U its k = IFin (sum_list (map (\<lambda>x. contribution U x k) its))"
    using computeProgramDeltas_exact[of its U k] by blast
  have 6: "map ascii_upper s = map ascii_upper s' \<longrightarrow>
        toProgramKey U (Some s) = toProgramKey U (Some s')
        \<and> is_canceled U (it\<lparr>item_status := Some s\<rparr>)
            = is_canceled U (it\<lparr>item_status := Some s'\<rparr>)"
    using toProgramKey_case[of s s' U] is_canceled_case[of s s' U it] by blast
  have 7: "list_all is_space ws \<longrightarrow> list_all is_space ws' \<longrightarrow>
        toProgramKey U (Some (ws @ s @ ws')) = toProgramKey U (Some s)"
    using toProgramKey_spaces[of ws ws' U s] by blast
  have 8: "\<not> isFinite (Number v') \<longrightarrow> clampPts v' = 0"
    using clampPts_not_finite[of v'] by blast
  have 9: "Number v = Fin r \<longrightarrow> clampPts v = max 0 (if r < 0 then - \<lfloor>- r\<rfloor> else \<lfloor>r\<rfloor>)"
    using clampPts_finite[of v r] by blast
  from computeProgramDeltas_Nil[of U k] 1 2 3 4 5 toProgramKey_iff[of U n k]
    toProgramKey_wire[of U k] 6 7 8 9
  show ?thesis by (intro conjI)
qed

theorem delta_resolver_correct_witness:
  "is_canceled ex_upper ex_canceled \<and> \<not> is_canceled ex_upper ex_item
   \<and> toProgramKey ex_upper (programTo ex_unknown) = None
   \<and> toProgramKey ex_upper (programFrom ex_unknown) = None
   \<and> sum_list (map moved [ex_other, ex_canceled]) \<le> 2 ^ 53
   \<and> map ascii_upper (asc ''Flying_blue'') = map ascii_upper (asc ''flying_BLUE'')
   \<and> list_all is_space [160, 9] \<and> list_all is_space [32, 8239]
   \<and> \<not> isFinite (Number JUndefined) \<and> Number (JNum (Fin (- 7 / 2))) = Fin (- 7 / 2)
   \<and> computeProgramDeltas ex_upper ([ex_other, ex_canceled] @ [ex_canceled])
        = computeProgramDeltas ex_upper [ex_other, ex_canceled]
   \<and> computeProgramDeltas ex_upper ([ex_other, ex_canceled] @ [ex_unknown])
        = computeProgramDeltas ex_upper [ex_other, ex_canceled]
   \<and> computeProgramDeltas ex_upper ([ex_other, ex_canceled] @ [ex_item]) smiles = IFin (- 50)
   \<and> computeProgramDeltas ex_upper [ex_other, ex_canceled] smiles = IFin 0
   \<and> toProgramKey ex_upper (Some (asc ''Flying_blue'')) = Some flyingBlue
   \<and> toProgramKey ex_upper (Some (asc ''flying_BLUE'')) = Some flyingBlue
   \<and> toProgramKey ex_upper (Some ([160, 9] @ asc ''Flying_blue'' @ [32, 8239])) = Some flyingBlue
   \<and> toProgramKey ex_upper (Some (160 # 383 # asc ''miles'')) = Some smiles
   \<and> clampPts JUndefined = 0 \<and> clampPts (JNum (Fin (- 7 / 2))) = 0"
proof -
  have h: "is_canceled ex_upper ex_canceled" "\<not> is_canceled ex_upper ex_item"
    "toProgramKey ex_upper (programTo ex_unknown) = None"
    "toProgramKey ex_upper (programFrom ex_unknown) = None"
    "sum_list (map moved [ex_other, ex_canceled]) \<le> 2 ^ 53"
    "map ascii_upper (asc ''Flying_blue'') = map ascii_upper (asc ''flying_BLUE'')"
    "list_all is_space [160, 9]" "list_all is_space [32, 8239]"
    by code_simp+
  have n: "\<not> isFinite (Number JUndefined)" "Number (JNum (Fin (- 7 / 2))) = Fin (- 7 / 2)"
    by simp_all
  have e: "toProgramKey ex_upper (programTo ex_item) \<noteq> Some smiles"
    "toProgramKey ex_upper (programFrom ex_item) = Some smiles"
    "clampPts (pointsDebitedFromOrigin ex_item) = 50"
    "sum_list (map (\<lambda>x. contribution ex_upper x smiles) [ex_other, ex_canceled]) = 0"
    "toProgramKey ex_upper (Some (asc ''flying_BLUE'')) = Some flyingBlue"
    "toProgramKey ex_upper (Some (160 # 383 # asc ''miles'')) = Some smiles"
    by code_simp+
  from delta_resolver_correct
    [of ex_upper smiles ex_canceled "[ex_other, ex_canceled]" ex_item ex_unknown
        "Some (asc ''smiles'')" "asc ''Flying_blue''" "asc ''flying_BLUE''"
        "[160, 9]" "[32, 8239]"
        JUndefined "JNum (Fin (- 7 / 2))" "- 7 / 2"]
    h n e
  show ?thesis
    by (simp add: js_sub_def round_double_exact)
qed

text \<open>
  The order of the items matters once a sum leaves the integers a double holds exactly:
  \<open>2 ^ 53 + 1\<close> rounds back to \<open>2 ^ 53\<close>, so crediting \<open>2 ^ 53\<close>, 1 and 1 points gives
  \<open>2 ^ 53\<close>, and crediting 1, 1 and \<open>2 ^ 53\<close> points gives \<open>2 ^ 53 + 2\<close>.
\<close>

theorem delta_order_counterexample:
  "mset [ex_credit 1, ex_credit 1, ex_credit (2 ^ 53)]
     = mset [ex_credit (2 ^ 53), ex_credit 1, ex_credit 1]
   \<and> computeProgramDeltas ex_upper [ex_credit (2 ^ 53), ex_credit 1, ex_credit 1] latam
       = IFin 9007199254740992
   \<and> computeProgramDeltas ex_upper [ex_credit 1, ex_credit 1, ex_credit (2 ^ 53)] latam
       = IFin 9007199254740994
   \<and> computeProgramDeltas ex_upper [ex_credit 1, ex_credit 1, ex_credit (2 ^ 53)]
       \<noteq> computeProgramDeltas ex_upper [ex_credit (2 ^ 53), ex_credit 1, ex_credit 1]"
proof -
  have a: "computeProgramDeltas ex_upper [ex_credit (2 ^ 53), ex_credit 1, ex_credit 1] latam
       = IFin 9007199254740992"
    by code_simp
  have b: "computeProgramDeltas ex_upper [ex_credit 1, ex_credit 1, ex_credit (2 ^ 53)] latam
       = IFin 9007199254740994"
    by code_simp
  have c: "computeProgramDeltas ex_upper [ex_credit 1, ex_credit 1, ex_credit (2 ^ 53)]
       \<noteq> computeProgramDeltas ex_upper [ex_credit (2 ^ 53), ex_credit 1, ex_credit 1]"
  proof
    assume "computeProgramDeltas ex_upper [ex_credit 1, ex_credit 1, ex_credit (2 ^ 53)]
       = computeProgramDeltas ex_upper [ex_credit (2 ^ 53), ex_credit 1, ex_credit 1]"
    then have "computeProgramDeltas ex_upper [ex_credit 1, ex_credit 1, ex_credit (2 ^ 53)] latam
       = computeProgramDeltas ex_upper [ex_credit (2 ^ 53), ex_credit 1, ex_credit 1] latam"
      by simp
    with a b show False by simp
  qed
  have m: "mset [ex_credit 1, ex_credit 1, ex_credit (2 ^ 53)]
     = mset [ex_credit (2 ^ 53), ex_credit 1, ex_credit 1]"
    by simp
  from m a b c show ?thesis by (intro conjI)
qed

text \<open>
  C10, for exact sums. While the points the items move sum to at most \<open>2 ^ 53\<close>, so that
  every sum of the resolver is exact, the deltas do not depend on the order of the items:
  two lists holding the same items, each as often, have the same deltas.
\<close>

theorem delta_order_independent_when_exact:
  "sum_list (map moved its) \<le> 2 ^ 53 \<Longrightarrow> mset its' = mset its
     \<Longrightarrow> computeProgramDeltas U its' = computeProgramDeltas U its"
  by (rule computeProgramDeltas_permute)

theorem delta_order_independent_when_exact_witness:
  "sum_list (map moved [ex_item, ex_canceled, ex_other]) \<le> 2 ^ 53
   \<and> mset [ex_other, ex_item, ex_canceled] = mset [ex_item, ex_canceled, ex_other]
   \<and> computeProgramDeltas ex_upper [ex_other, ex_item, ex_canceled]
       = computeProgramDeltas ex_upper [ex_item, ex_canceled, ex_other]"
proof -
  have a: "sum_list (map moved [ex_item, ex_canceled, ex_other]) \<le> 2 ^ 53"
    by code_simp
  have b: "mset [ex_other, ex_item, ex_canceled] = mset [ex_item, ex_canceled, ex_other]"
    by simp
  from delta_order_independent_when_exact[OF a b, of ex_upper] a b
  show ?thesis by (intro conjI)
qed

section \<open>Items\<close>

text \<open>
  C7. A successful release turns into \<open>RELEASED\<close> every item of the purchase whose status is
  \<open>PENDING\<close>, changing no other field of it, and leaves every other item as it was: the items
  of the purchase with another status, \<open>CANCELED\<close> among them, and the items of other
  purchases. No item is added or removed.
\<close>

theorem items_released_frame:
  "is_ok (fst (POST w req d)) \<Longrightarrow>
     length (items (snd (POST w req d))) = length (items (snapshot w req d))
     \<and> (\<forall>j < length (items (snapshot w req d)).
          (let before = items (snapshot w req d) ! j; after = items (snd (POST w req d)) ! j
           in if purchaseId before = req_id req \<and> item_status before = Some (asc ''PENDING'')
              then after = before\<lparr>item_status := Some (asc ''RELEASED'')\<rparr>
              else after = before))"
proof -
  assume a: "is_ok (fst (POST w req d))"
  from POST_ok_snapshot[OF a] obtain p cid c where
    h: "purchases (snapshot w req d) (req_id req) = Some p" "cedenteId p = Some cid"
       "cedentes (snapshot w req d) cid = Some c"
    by blast
  from POST_ok_store(2)[OF a h] show ?thesis
    by (simp add: release_item_def Let_def)
qed

theorem items_released_frame_witness:
  "is_ok (fst (POST ex_world ex_request ex_db))
   \<and> items (snapshot ex_world ex_request ex_db) = [ex_item, ex_canceled, ex_other]
   \<and> items (snd (POST ex_world ex_request ex_db))
       = [ex_item\<lparr>item_status := Some (asc ''RELEASED'')\<rparr>, ex_canceled, ex_other]
   \<and> length (items (snd (POST ex_world ex_request ex_db)))
       = length (items (snapshot ex_world ex_request ex_db))"
proof -
  have s: "items (snapshot ex_world ex_request ex_db) = [ex_item, ex_canceled, ex_other]"
    by (simp add: snapshot_def ex_world_def ex_db_def)
  have c: "items (snd (POST ex_world ex_request ex_db))
       = [ex_item\<lparr>item_status := Some (asc ''RELEASED'')\<rparr>, ex_canceled, ex_other]"
    by code_simp
  from items_released_frame[OF ex_ok] ex_ok s c show ?thesis by blast
qed

section \<open>The commission\<close>

lemma upsert_absent:
  "\<forall>c \<in> set cs. commission_purchaseId c \<noteq> pid \<Longrightarrow> upsert pid cr up cs = (cs @ [cr], cr)"
  by (induction cs) simp_all

lemma upsert_present:
  "j < length cs \<Longrightarrow> commission_purchaseId (cs ! j) = pid
     \<Longrightarrow> \<forall>m < j. commission_purchaseId (cs ! m) \<noteq> pid
     \<Longrightarrow> upsert pid cr up cs = (cs[j := up (cs ! j)], up (cs ! j))"
proof (induction cs arbitrary: j)
  case Nil
  then show ?case by simp
next
  case (Cons c cs)
  show ?case
  proof (cases j)
    case 0
    with Cons.prems show ?thesis by simp
  next
    case (Suc n)
    with Cons.prems have "commission_purchaseId c \<noteq> pid" by auto
    moreover from Suc Cons.prems have "upsert pid cr up cs = (cs[n := up (cs ! n)], up (cs ! n))"
      by (intro Cons.IH) auto
    ultimately show ?thesis using Suc by simp
  qed
qed

lemma upsert_member:
  "snd (upsert pid cr up cs) \<in> set (fst (upsert pid cr up cs))"
  by (induction cs) simp_all

lemma upsert_others:
  assumes "commission_purchaseId cr = pid" "\<forall>c. commission_purchaseId (up c) = commission_purchaseId c"
  shows "filter (\<lambda>c. commission_purchaseId c \<noteq> pid) (fst (upsert pid cr up cs))
       = filter (\<lambda>c. commission_purchaseId c \<noteq> pid) cs"
  using assms by (induction cs) simp_all

lemma upsert_count:
  assumes "commission_purchaseId cr = pid" "\<forall>c. commission_purchaseId (up c) = commission_purchaseId c"
    and "length (filter (\<lambda>c. commission_purchaseId c = pid) cs) \<le> 1"
  shows "length (filter (\<lambda>c. commission_purchaseId c = pid) (fst (upsert pid cr up cs))) = 1"
  using assms by (induction cs) (auto split: if_splits)

lemma close_data_fields:
  "cedenteId (close_data t u a p) = cedenteId p"
  "cedentePayCents (close_data t u a p) = cedentePayCents p"
  "status (close_data t u a p) = ''CLOSED''"
  by (simp_all add: close_data_def)

lemma release_tx_commissions:
  assumes "release_tx U F t i u body d0 = Inr (d', r)" "purchases d0 i = Some p"
  shows "if gt_zero (Number (or_zero (cedentePayCents p)))
         then commissions d' =
                fst (upsert i (create_data t u i p (Number (or_zero (cedentePayCents p))))
                       (update_data u (Number (or_zero (cedentePayCents p)))) (commissions d0))
              \<and> commission r =
                Some (snd (upsert i (create_data t u i p (Number (or_zero (cedentePayCents p))))
                       (update_data u (Number (or_zero (cedentePayCents p)))) (commissions d0)))
         else commissions d' = commissions d0 \<and> commission r = None"
proof -
  from assms(1) obtain p' cid c where s:
    "purchases d0 i = Some p'"
    "commission_step F t u i (close_data t u (applied_at U body d0 i p' c) p')
       (d0\<lparr>cedentes := (cedentes d0)
              (cid \<mapsto> c\<lparr>pontos := (\<lambda>k. JNum (Fin (of_int (applied_at U body d0 i p' c k))))\<rparr>),
           items := map (release_item i) (items d0),
           purchases := (purchases d0)(i \<mapsto> close_data t u (applied_at U body d0 i p' c) p')\<rparr>)
     = Inr (d', r)"
    by (rule release_tx_Inr)
  from s(1) assms(2) have e: "p' = p" by simp
  have c: "create_data t u i (close_data t u a p) n = create_data t u i p n" for a n
    by (simp add: create_data_def close_data_fields)
  from s(2) show ?thesis
    unfolding e commission_step_def commission_upsert_def
    by (auto simp: Let_def close_data_fields c split: option.splits if_splits)
qed

lemma POST_ok_commissions:
  assumes "is_ok (fst (POST w req d))" "purchases (snapshot w req d) (req_id req) = Some p"
  shows "if gt_zero (Number (or_zero (cedentePayCents p)))
         then commissions (snd (POST w req d)) =
                fst (upsert (req_id req)
                      (create_data (now w) (or_empty (session req)) (req_id req) p
                         (Number (or_zero (cedentePayCents p))))
                      (update_data (or_empty (session req)) (Number (or_zero (cedentePayCents p))))
                      (commissions (snapshot w req d)))
              \<and> returned_commission (fst (POST w req d)) =
                Some (snd (upsert (req_id req)
                      (create_data (now w) (or_empty (session req)) (req_id req) p
                         (Number (or_zero (cedentePayCents p))))
                      (update_data (or_empty (session req)) (Number (or_zero (cedentePayCents p))))
                      (commissions (snapshot w req d))))
         else commissions (snd (POST w req d)) = commissions (snapshot w req d)
              \<and> returned_commission (fst (POST w req d)) = None"
proof -
  from POST_ok_tx[OF assms(1)] obtain r where
    t: "release_tx (upper_case w) (storage_fault w) (now w) (req_id req) (or_empty (session req))
              (saldosAplicados req) (snapshot w req d) = Inr (snd (POST w req d), r)"
    and o: "fst (POST w req d) = ok r"
    by blast
  from release_tx_commissions[OF t assms(2)] o show ?thesis by simp
qed

lemma upsert_result_fields:
  assumes "commission_purchaseId cr = pid" "amountCents cr = a" "commission_status cr = s"
    "paidAt cr = None" "paidById cr = None"
    "\<forall>c. commission_purchaseId (up c) = commission_purchaseId c \<and> amountCents (up c) = a
          \<and> commission_status (up c) = s \<and> paidAt (up c) = None \<and> paidById (up c) = None"
  shows "commission_purchaseId (snd (upsert pid cr up cs)) = pid
       \<and> amountCents (snd (upsert pid cr up cs)) = a
       \<and> commission_status (snd (upsert pid cr up cs)) = s
       \<and> paidAt (snd (upsert pid cr up cs)) = None
       \<and> paidById (snd (upsert pid cr up cs)) = None"
  using assms by (induction cs) simp_all

lemma filter_empty_set: "filter P xs = [] \<Longrightarrow> \<forall>x \<in> set xs. \<not> P x"
  by (simp add: filter_empty_conv)

text \<open>
  C6. After a successful release of a purchase whose payable amount is a positive number, the
  commission the response returns is in the table, refers to the purchase, holds the amount,
  is \<open>PENDING\<close> and has no payment fields; when the purchase had no commission it is a new
  row, added to the table; when it had one, that row is updated where it stands, keeping its
  other fields; the purchase has one commission (given it had at most one), and the
  commissions of other purchases are as before. When the payable amount is 0, or not a
  positive number, the table is unchanged and the response returns no commission.
\<close>

theorem commission_conditional_upsert:
  assumes "is_ok (fst (POST w req d))"
    and "purchases (snapshot w req d) (req_id req) = Some p"
  shows
    "(let before = commissions (snapshot w req d);
          after = commissions (snd (POST w req d));
          amount = Number (or_zero (cedentePayCents p));
          u = or_empty (session req);
          mine = (\<lambda>c. commission_purchaseId c = req_id req)
      in if gt_zero amount then
           (\<exists>c. returned_commission (fst (POST w req d)) = Some c \<and> c \<in> set after
              \<and> commission_purchaseId c = req_id req \<and> amountCents c = amount
              \<and> commission_status c = ''PENDING'' \<and> paidAt c = None \<and> paidById c = None
              \<and> (filter mine before = [] \<longrightarrow>
                   after = before @ [c] \<and> c = create_data (now w) u (req_id req) p amount)
              \<and> (\<forall>j < length before. mine (before ! j) \<and> (\<forall>m < j. \<not> mine (before ! m)) \<longrightarrow>
                   after = before[j := c] \<and> c = update_data u amount (before ! j))
              \<and> (length (filter mine before) \<le> 1 \<longrightarrow> length (filter mine after) = 1)
              \<and> filter (\<lambda>c. \<not> mine c) after = filter (\<lambda>c. \<not> mine c) before)
         else after = before \<and> returned_commission (fst (POST w req d)) = None)"
proof (cases "gt_zero (Number (or_zero (cedentePayCents p)))")
  case False
  with POST_ok_commissions[OF assms] show ?thesis by (simp add: Let_def)
next
  case True
  define amount where "amount = Number (or_zero (cedentePayCents p))"
  define i where "i = req_id req"
  define cr where "cr = create_data (now w) (or_empty (session req)) i p amount"
  define up where "up = update_data (or_empty (session req)) amount"
  define before where "before = commissions (snapshot w req d)"
  define c where "c = snd (upsert i cr up before)"
  from POST_ok_commissions[OF assms] True
  have after: "commissions (snd (POST w req d)) = fst (upsert i cr up before)"
    and ret: "returned_commission (fst (POST w req d)) = Some c"
    by (simp_all add: amount_def i_def cr_def up_def before_def c_def)
  have cr: "commission_purchaseId cr = i" "amountCents cr = amount"
    "commission_status cr = ''PENDING''" "paidAt cr = None" "paidById cr = None"
    by (simp_all add: cr_def create_data_def)
  have up: "\<forall>x. commission_purchaseId (up x) = commission_purchaseId x \<and> amountCents (up x) = amount
          \<and> commission_status (up x) = ''PENDING'' \<and> paidAt (up x) = None \<and> paidById (up x) = None"
    by (simp add: up_def update_data_def)
  from up have up1: "\<forall>x. commission_purchaseId (up x) = commission_purchaseId x" by simp
  have 1: "c \<in> set (fst (upsert i cr up before))"
    unfolding c_def by (rule upsert_member)
  have 2: "commission_purchaseId c = i \<and> amountCents c = amount
       \<and> commission_status c = ''PENDING'' \<and> paidAt c = None \<and> paidById c = None"
    unfolding c_def by (rule upsert_result_fields[OF cr up])
  have 3: "filter (\<lambda>x. commission_purchaseId x = i) before = [] \<longrightarrow>
       fst (upsert i cr up before) = before @ [c] \<and> c = cr"
    unfolding c_def using upsert_absent[of before i cr up]
    by (auto dest!: filter_empty_set)
  have 4: "\<forall>j < length before. commission_purchaseId (before ! j) = i
              \<and> (\<forall>m < j. commission_purchaseId (before ! m) \<noteq> i) \<longrightarrow>
       fst (upsert i cr up before) = before[j := c] \<and> c = up (before ! j)"
    unfolding c_def using upsert_present[of _ before i cr up] by auto
  have 5: "length (filter (\<lambda>x. commission_purchaseId x = i) before) \<le> 1 \<longrightarrow>
       length (filter (\<lambda>x. commission_purchaseId x = i) (fst (upsert i cr up before))) = 1"
    using upsert_count[OF cr(1) up1] by blast
  have 6: "filter (\<lambda>x. commission_purchaseId x \<noteq> i) (fst (upsert i cr up before))
       = filter (\<lambda>x. commission_purchaseId x \<noteq> i) before"
    by (rule upsert_others[OF cr(1) up1])
  from True ret 1 2 3 4 5 6 show ?thesis
    unfolding Let_def after amount_def[symmetric] i_def[symmetric] before_def[symmetric]
      cr_def[symmetric] up_def[symmetric]
    by auto
qed

lemma ex_ok_paid: "is_ok (fst (POST ex_world ex_request ex_db_paid))"
  by code_simp

lemma ex_ok_free: "is_ok (fst (POST ex_world ex_request ex_db_free))"
  by code_simp

theorem commission_conditional_upsert_witness:
  "is_ok (fst (POST ex_world ex_request ex_db))
   \<and> purchases (snapshot ex_world ex_request ex_db) (req_id ex_request) = Some ex_purchase
   \<and> commissions (snd (POST ex_world ex_request ex_db))
       = [create_data 7 ''u1'' ''p1'' ex_purchase (Fin 5000)]
   \<and> returned_commission (fst (POST ex_world ex_request ex_db))
       = Some (create_data 7 ''u1'' ''p1'' ex_purchase (Fin 5000))
   \<and> is_ok (fst (POST ex_world ex_request ex_db_paid))
   \<and> commissions (snd (POST ex_world ex_request ex_db_paid))
       = [ex_other_commission, update_data ''u1'' (Fin 5000) ex_paid]
   \<and> is_ok (fst (POST ex_world ex_request ex_db_free))
   \<and> commissions (snd (POST ex_world ex_request ex_db_free)) = []
   \<and> returned_commission (fst (POST ex_world ex_request ex_db_free)) = None"
proof -
  have p1: "purchases (snapshot ex_world ex_request ex_db) (req_id ex_request) = Some ex_purchase"
    by (simp add: snapshot_def ex_world_def ex_request_def ex_db_def)
  have p2: "purchases (snapshot ex_world ex_request ex_db_paid) (req_id ex_request)
      = Some ex_purchase"
    by (simp add: snapshot_def ex_world_def ex_request_def ex_db_def ex_db_paid_def)
  have p3: "purchases (snapshot ex_world ex_request ex_db_free) (req_id ex_request)
      = Some (ex_purchase\<lparr>cedentePayCents := JNum (Fin 0)\<rparr>)"
    by (simp add: snapshot_def ex_world_def ex_request_def ex_db_def ex_db_free_def)
  have b: "commissions (snapshot ex_world ex_request ex_db) = []"
    "commissions (snapshot ex_world ex_request ex_db_paid) = [ex_other_commission, ex_paid]"
    "commissions (snapshot ex_world ex_request ex_db_free) = []"
    by (simp_all add: snapshot_def ex_world_def ex_db_def ex_db_paid_def ex_db_free_def)
  have r: "req_id ex_request = ''p1''" "or_empty (session ex_request) = ''u1''" "now ex_world = 7"
    "Number (or_zero (cedentePayCents ex_purchase)) = Fin 5000"
    "commission_purchaseId ex_paid = ''p1''" "commission_purchaseId ex_other_commission = ''p2''"
    by (simp_all add: ex_request_def ex_world_def ex_purchase_def ex_paid_def
        ex_other_commission_def)
  from commission_conditional_upsert[OF ex_ok p1]
  have 1: "commissions (snd (POST ex_world ex_request ex_db))
       = [create_data 7 ''u1'' ''p1'' ex_purchase (Fin 5000)]
     \<and> returned_commission (fst (POST ex_world ex_request ex_db))
       = Some (create_data 7 ''u1'' ''p1'' ex_purchase (Fin 5000))"
    by (auto simp: Let_def b r)
  from commission_conditional_upsert[OF ex_ok_paid p2]
  have 2: "commissions (snd (POST ex_world ex_request ex_db_paid))
       = [ex_other_commission, update_data ''u1'' (Fin 5000) ex_paid]"
    by (auto simp: Let_def b r less_Suc_eq numeral_2_eq_2)
  from commission_conditional_upsert[OF ex_ok_free p3]
  have 3: "commissions (snd (POST ex_world ex_request ex_db_free)) = []
     \<and> returned_commission (fst (POST ex_world ex_request ex_db_free)) = None"
    by (simp add: Let_def b)
  from ex_ok p1 1 ex_ok_paid 2 ex_ok_free 3 show ?thesis by blast
qed

section \<open>Failures\<close>

lemma POST_not_open:
  assumes "purchases d (req_id req) = Some p" "status p \<noteq> ''OPEN''"
  shows "snd (POST w req d) = d"
    and "\<exists>m. fst (POST w req d) = badRequest m"
    and "req_id req \<noteq> [] \<Longrightarrow> or_empty (session req) \<noteq> []
           \<Longrightarrow> POST w req d = (badRequest SoPodeLiberarCompraOpen, d)"
  using assms by (auto simp: POST_def findUnique_def Let_def)

lemma POST_not_open_after_recompute:
  assumes "req_id req \<noteq> []" "or_empty (session req) \<noteq> []"
    and "purchases d (req_id req) = Some p" "status p = ''OPEN''"
    and "recomputeCompra w (req_id req) d = (d1, None)"
    and "purchases d1 (req_id req) = Some p1" "status p1 \<noteq> ''OPEN''"
  shows "POST w req d = (badRequest SoPodeLiberarCompraOpen, d1)"
  using assms by (simp add: POST_def findUnique_def Let_def)

lemma POST_no_cedente_after_recompute:
  assumes "req_id req \<noteq> []" "or_empty (session req) \<noteq> []"
    and "purchases d (req_id req) = Some p" "status p = ''OPEN''"
    and "recomputeCompra w (req_id req) d = (d1, None)"
    and "purchases d1 (req_id req) = Some p1" "status p1 = ''OPEN''"
    and "include_cedente d1 p1 = None"
  shows "POST w req d = (badRequest CedenteNaoEncontradoNaCompra, d1)"
  using assms by (simp add: POST_def findUnique_def Let_def)

lemma release_tx_not_open:
  assumes "purchases d0 i = Some p" "status p \<noteq> ''OPEN''"
  shows "\<exists>e. release_tx U F t i u body d0 = Inl e"
    and "F FindUnique = None \<Longrightarrow> release_tx U F t i u body d0 = Inl CompraJaNaoEstaOpen"
  using assms by (auto simp: release_tx_def findUnique_def split: option.splits)

lemma release_tx_no_cedente:
  assumes "purchases d0 i = Some p" "status p = ''OPEN''" "include_cedente d0 p = None"
    and "F FindUnique = None"
  shows "release_tx U F t i u body d0 = Inl CedenteNaoEncontradoNaCompra"
  using assms by (auto simp: release_tx_def findUnique_def split: option.splits)

lemma transaction_rollback: "f d0 = Inl e \<Longrightarrow> transaction f d0 = (Inl e, d0)"
  by (simp add: transaction_def)

lemma POST_tx_failure:
  assumes "reaches_transaction w req d"
    and "release_tx (upper_case w) (storage_fault w) (now w) (req_id req) (or_empty (session req))
           (saldosAplicados req) (snapshot w req d) = Inl e"
  shows "POST w req d = (serverError FalhaAoLiberarCompra e, snapshot w req d)"
  using assms by (simp add: POST_reaches)

lemma release_tx_fault:
  assumes "purchases d0 i = Some p" "status p = ''OPEN''" "cedenteId p = Some cid"
    and "cedentes d0 cid = Some ce"
    and "F c = Some e" "\<forall>c' \<in> set (calls_before c). F c' = None"
    and "c = CommissionUpsert \<longrightarrow> gt_zero (Number (or_zero (cedentePayCents p)))"
  shows "release_tx U F t i u body d0 = Inl e"
  using assms
  by (cases c)
     (simp_all add: release_tx_def findUnique_def include_cedente_def Let_def
        cedente_update_def item_updateMany_def purchase_update_def commission_step_def
        commission_upsert_def close_data_fields)

lemma POST_second_release:
  assumes "is_ok (fst (POST w req d))" "req_id req' = req_id req"
  shows "\<exists>m. POST w' req' (snd (POST w req d)) = (badRequest m, snd (POST w req d))"
    and "or_empty (session req') \<noteq> []
           \<Longrightarrow> POST w' req' (snd (POST w req d))
                 = (badRequest SoPodeLiberarCompraOpen, snd (POST w req d))"
proof -
  from POST_ok_snapshot[OF assms(1)] obtain p cid c where
    h: "purchases (snapshot w req d) (req_id req) = Some p" "cedenteId p = Some cid"
       "cedentes (snapshot w req d) cid = Some c"
    by blast
  from POST_ok_store(3)[OF assms(1) h]
  have "\<exists>q. purchases (snd (POST w req d)) (req_id req') = Some q \<and> status q \<noteq> ''OPEN''"
    by (simp add: assms(2) close_data_fields)
  then obtain q where q: "purchases (snd (POST w req d)) (req_id req') = Some q"
    "status q \<noteq> ''OPEN''"
    by blast
  from POST_ok_reaches[OF assms(1)] assms(2) have i: "req_id req' \<noteq> []"
    by (simp add: reaches_transaction_def)
  from POST_not_open(1,2)[OF q, of w']
  show "\<exists>m. POST w' req' (snd (POST w req d)) = (badRequest m, snd (POST w req d))"
    by (metis prod.collapse)
  show "POST w' req' (snd (POST w req d))
          = (badRequest SoPodeLiberarCompraOpen, snd (POST w req d))"
    if "or_empty (session req') \<noteq> []"
    by (rule POST_not_open(3)[OF q i that])
qed

lemma ex_reaches:
  "reaches_transaction ex_world_closing ex_request ex_db"
  "reaches_transaction ex_world_detaching ex_request ex_db"
  "reaches_transaction ex_world_faulty ex_request ex_db"
  by code_simp+

text \<open>
  When the purchase stops being \<open>OPEN\<close> between the handler's re-read and its transaction
  (another request closed it), the check inside the transaction throws and the release ends
  in the server error (status 500), not in \<open>badRequest\<close>.
\<close>

theorem release_not_open_counterexample:
  "reaches_transaction ex_world_closing ex_request ex_db
   \<and> purchases (snapshot ex_world_closing ex_request ex_db) ''p1''
       = Some (ex_purchase\<lparr>status := ''CLOSED''\<rparr>)
   \<and> status (ex_purchase\<lparr>status := ''CLOSED''\<rparr>) \<noteq> ''OPEN''
   \<and> fst (POST ex_world_closing ex_request ex_db)
       = serverError FalhaAoLiberarCompra CompraJaNaoEstaOpen
   \<and> fst (POST ex_world_closing ex_request ex_db) \<noteq> badRequest SoPodeLiberarCompraOpen
   \<and> error_status (fst (POST ex_world_closing ex_request ex_db)) = Some 500"
proof -
  have a: "purchases (snapshot ex_world_closing ex_request ex_db) ''p1''
       = Some (ex_purchase\<lparr>status := ''CLOSED''\<rparr>)"
    by (simp add: snapshot_def ex_world_closing_def ex_world_def)
  have b: "status (ex_purchase\<lparr>status := ''CLOSED''\<rparr>) \<noteq> ''OPEN''"
    by simp
  have r: "req_id ex_request = ''p1''" "storage_fault ex_world_closing FindUnique = None"
    by (simp_all add: ex_request_def ex_world_closing_def ex_world_def)
  have "release_tx (upper_case ex_world_closing) (storage_fault ex_world_closing)
          (now ex_world_closing) (req_id ex_request) (or_empty (session ex_request))
          (saldosAplicados ex_request) (snapshot ex_world_closing ex_request ex_db)
        = Inl CompraJaNaoEstaOpen"
    by (rule release_tx_not_open(2)
          [where F = "storage_fault ex_world_closing", OF a[folded r(1)] b r(2)])
  from POST_tx_failure[OF ex_reaches(1) this]
  have d: "fst (POST ex_world_closing ex_request ex_db)
       = serverError FalhaAoLiberarCompra CompraJaNaoEstaOpen"
    by simp
  from ex_reaches(1) a b d show ?thesis by simp
qed

text \<open>
  C3, by the place of the check. A release of a purchase that is not \<open>OPEN\<close> when the handler
  first reads it fails by \<open>badRequest\<close> (status 400) and leaves the store as it was, before the
  collaborator is called; with an id and a session the message is the one of the \<open>OPEN\<close>
  check. So after a successful release, a second release of the same purchase, started on
  the store the first one left, fails by \<open>badRequest\<close> and leaves that store as it is, whoever
  asks and whatever the overrides; with a session it is the \<open>OPEN\<close> check that stops it. The
  check is made again on the re-read after \<open>recomputeCompra\<close>, where it fails by the same
  \<open>badRequest\<close> with the store as the collaborator left it, and on the re-read inside the
  transaction, where it throws: the transaction keeps none of its writes and the handler
  answers with the server error (status 500), the message of the check being its detail.
\<close>

theorem release_is_one_way:
  "(purchases d (req_id req) = Some p \<longrightarrow> status p \<noteq> ''OPEN'' \<longrightarrow>
      snd (POST w req d) = d \<and> (\<exists>m. fst (POST w req d) = badRequest m)
      \<and> error_status (fst (POST w req d)) = Some 400
      \<and> (req_id req \<noteq> [] \<longrightarrow> or_empty (session req) \<noteq> [] \<longrightarrow>
           POST w req d = (badRequest SoPodeLiberarCompraOpen, d)))
   \<and> (is_ok (fst (POST w1 req1 d1)) \<longrightarrow> req_id req2 = req_id req1 \<longrightarrow>
        (\<exists>m. POST w2 req2 (snd (POST w1 req1 d1)) = (badRequest m, snd (POST w1 req1 d1)))
        \<and> (or_empty (session req2) \<noteq> [] \<longrightarrow>
             POST w2 req2 (snd (POST w1 req1 d1))
               = (badRequest SoPodeLiberarCompraOpen, snd (POST w1 req1 d1))))
   \<and> (req_id req3 \<noteq> [] \<longrightarrow> or_empty (session req3) \<noteq> [] \<longrightarrow>
        purchases d3 (req_id req3) = Some p3 \<longrightarrow> status p3 = ''OPEN'' \<longrightarrow>
        recomputeCompra w3 (req_id req3) d3 = (d3', None) \<longrightarrow>
        purchases d3' (req_id req3) = Some p3' \<longrightarrow> status p3' \<noteq> ''OPEN'' \<longrightarrow>
        POST w3 req3 d3 = (badRequest SoPodeLiberarCompraOpen, d3')
        \<and> error_status (fst (POST w3 req3 d3)) = Some 400)
   \<and> (purchases d4 i = Some p4 \<longrightarrow> status p4 \<noteq> ''OPEN'' \<longrightarrow> F FindUnique = None \<longrightarrow>
        transaction (release_tx U F t i u body) d4 = (Inl CompraJaNaoEstaOpen, d4))
   \<and> (reaches_transaction w5 req5 d5 \<longrightarrow> storage_fault w5 FindUnique = None \<longrightarrow>
        purchases (snapshot w5 req5 d5) (req_id req5) = Some p5 \<longrightarrow> status p5 \<noteq> ''OPEN'' \<longrightarrow>
        POST w5 req5 d5
          = (serverError FalhaAoLiberarCompra CompraJaNaoEstaOpen, snapshot w5 req5 d5)
        \<and> error_status (fst (POST w5 req5 d5)) = Some 500)"
proof -
  have 1: "purchases d (req_id req) = Some p \<longrightarrow> status p \<noteq> ''OPEN'' \<longrightarrow>
      snd (POST w req d) = d \<and> (\<exists>m. fst (POST w req d) = badRequest m)
      \<and> error_status (fst (POST w req d)) = Some 400
      \<and> (req_id req \<noteq> [] \<longrightarrow> or_empty (session req) \<noteq> [] \<longrightarrow>
           POST w req d = (badRequest SoPodeLiberarCompraOpen, d))"
    using POST_not_open[of d req p w] by auto
  have 2: "is_ok (fst (POST w1 req1 d1)) \<longrightarrow> req_id req2 = req_id req1 \<longrightarrow>
        (\<exists>m. POST w2 req2 (snd (POST w1 req1 d1)) = (badRequest m, snd (POST w1 req1 d1)))
        \<and> (or_empty (session req2) \<noteq> [] \<longrightarrow>
             POST w2 req2 (snd (POST w1 req1 d1))
               = (badRequest SoPodeLiberarCompraOpen, snd (POST w1 req1 d1)))"
    using POST_second_release[of w1 req1 d1 req2 w2] by blast
  have 3: "req_id req3 \<noteq> [] \<longrightarrow> or_empty (session req3) \<noteq> [] \<longrightarrow>
        purchases d3 (req_id req3) = Some p3 \<longrightarrow> status p3 = ''OPEN'' \<longrightarrow>
        recomputeCompra w3 (req_id req3) d3 = (d3', None) \<longrightarrow>
        purchases d3' (req_id req3) = Some p3' \<longrightarrow> status p3' \<noteq> ''OPEN'' \<longrightarrow>
        POST w3 req3 d3 = (badRequest SoPodeLiberarCompraOpen, d3')
        \<and> error_status (fst (POST w3 req3 d3)) = Some 400"
    using POST_not_open_after_recompute[of req3 d3 p3 w3 d3' p3'] by auto
  have 4: "purchases d4 i = Some p4 \<longrightarrow> status p4 \<noteq> ''OPEN'' \<longrightarrow> F FindUnique = None \<longrightarrow>
        transaction (release_tx U F t i u body) d4 = (Inl CompraJaNaoEstaOpen, d4)"
    using release_tx_not_open(2)[of d4 i p4 F U t u body] by (simp add: transaction_rollback)
  have 5: "reaches_transaction w5 req5 d5 \<longrightarrow> storage_fault w5 FindUnique = None \<longrightarrow>
        purchases (snapshot w5 req5 d5) (req_id req5) = Some p5 \<longrightarrow> status p5 \<noteq> ''OPEN'' \<longrightarrow>
        POST w5 req5 d5
          = (serverError FalhaAoLiberarCompra CompraJaNaoEstaOpen, snapshot w5 req5 d5)
        \<and> error_status (fst (POST w5 req5 d5)) = Some 500"
    using release_tx_not_open(2)[of "snapshot w5 req5 d5" "req_id req5" p5 "storage_fault w5"
        "upper_case w5" "now w5" "or_empty (session req5)" "saldosAplicados req5"]
      POST_tx_failure[of w5 req5 d5 CompraJaNaoEstaOpen]
    by auto
  from 1 2 3 4 5 show ?thesis by (intro conjI)
qed

theorem release_is_one_way_witness:
  "is_ok (fst (POST ex_world ex_request ex_db))
   \<and> POST ex_world_faulty
        (ex_request\<lparr>session := Some ''u2'', saldosAplicados := (\<lambda>k. JNum (Fin 5))\<rparr>)
        (snd (POST ex_world ex_request ex_db))
       = (badRequest SoPodeLiberarCompraOpen, snd (POST ex_world ex_request ex_db))
   \<and> POST ex_world ex_request ex_db_closed = (badRequest SoPodeLiberarCompraOpen, ex_db_closed)
   \<and> error_status (fst (POST ex_world ex_request ex_db_closed)) = Some 400
   \<and> POST (ex_world\<lparr>recomputeCompra := (\<lambda>i d. (ex_db_closed, None))\<rparr>) ex_request ex_db
       = (badRequest SoPodeLiberarCompraOpen, ex_db_closed)
   \<and> transaction (release_tx ex_upper (\<lambda>c. None) 7 ''p1'' ''u1'' (\<lambda>k. JUndefined)) ex_db_closed
       = (Inl CompraJaNaoEstaOpen, ex_db_closed)
   \<and> reaches_transaction ex_world_closing ex_request ex_db
   \<and> POST ex_world_closing ex_request ex_db
       = (serverError FalhaAoLiberarCompra CompraJaNaoEstaOpen,
          snapshot ex_world_closing ex_request ex_db)
   \<and> error_status (fst (POST ex_world_closing ex_request ex_db)) = Some 500"
proof -
  let ?closed = "ex_purchase\<lparr>status := ''CLOSED''\<rparr>"
  let ?w3 = "ex_world\<lparr>recomputeCompra := (\<lambda>i d. (ex_db_closed, None))\<rparr>"
  let ?req2 = "ex_request\<lparr>session := Some ''u2'', saldosAplicados := (\<lambda>k. JNum (Fin 5))\<rparr>"
  have r: "req_id ex_request = ''p1''" "req_id ex_request \<noteq> []"
    "or_empty (session ex_request) \<noteq> []"
    "req_id ?req2 = req_id ex_request" "or_empty (session ?req2) \<noteq> []"
    by (simp_all add: ex_request_def)
  have c: "purchases ex_db_closed (req_id ex_request) = Some ?closed" "status ?closed \<noteq> ''OPEN''"
    "purchases ex_db_closed ''p1'' = Some ?closed"
    by (simp_all add: ex_db_closed_def ex_request_def)
  have o: "purchases ex_db (req_id ex_request) = Some ex_purchase" "status ex_purchase = ''OPEN''"
    "recomputeCompra ?w3 (req_id ex_request) ex_db = (ex_db_closed, None)"
    by (simp_all add: ex_db_def ex_request_def ex_purchase_def)
  have s: "purchases (snapshot ex_world_closing ex_request ex_db) (req_id ex_request) = Some ?closed"
    "storage_fault ex_world_closing FindUnique = None"
    by (simp_all add: snapshot_def ex_world_closing_def ex_world_def ex_request_def)
  from release_is_one_way
    [of ex_db_closed ex_request ?closed ex_world
        ex_world ex_request ex_db ?req2 ex_world_faulty
        ex_request ex_db ex_purchase ?w3 ex_db_closed ?closed
        ex_db_closed "''p1''" ?closed "\<lambda>c. None" ex_upper 7 "''u1''" "\<lambda>k. JUndefined"
        ex_world_closing ex_request ex_db ?closed]
    r c o s ex_ok ex_reaches(1)
  show ?thesis by simp
qed

text \<open>
  C4. When the callback of the transaction throws, the handler answers with the server error
  "Falha ao liberar compra." carrying the message thrown as detail, and the store is the one
  the transaction started from: none of its writes is kept. A storage error raised by a call
  of the transaction (the read, the balance update, the bulk item update, the purchase close,
  or the commission upsert when there is a payable amount), the earlier calls raising none,
  is such an exception, with its own message as the detail. A release that does not succeed
  leaves the store as the handler found it or as the collaborator and the other writers left
  it; where these write nothing, the store is unchanged.
\<close>

theorem release_is_atomic:
  "(reaches_transaction w req d \<longrightarrow>
      release_tx (upper_case w) (storage_fault w) (now w) (req_id req) (or_empty (session req))
        (saldosAplicados req) (snapshot w req d) = Inl e \<longrightarrow>
      POST w req d = (serverError FalhaAoLiberarCompra e, snapshot w req d))
   \<and> (reaches_transaction w req d \<longrightarrow>
        purchases (snapshot w req d) (req_id req) = Some p \<longrightarrow> status p = ''OPEN'' \<longrightarrow>
        cedenteId p = Some cid \<longrightarrow> cedentes (snapshot w req d) cid = Some ce \<longrightarrow>
        storage_fault w c = Some e' \<longrightarrow> (\<forall>c' \<in> set (calls_before c). storage_fault w c' = None) \<longrightarrow>
        (c = CommissionUpsert \<longrightarrow> gt_zero (Number (or_zero (cedentePayCents p)))) \<longrightarrow>
        POST w req d = (serverError FalhaAoLiberarCompra e', snapshot w req d))
   \<and> (\<not> is_ok (fst (POST w req d)) \<longrightarrow>
        snd (POST w req d) = d
        \<or> snd (POST w req d) = fst (recomputeCompra w (req_id req) d)
        \<or> snd (POST w req d) = snapshot w req d)
   \<and> (\<not> is_ok (fst (POST w req d)) \<longrightarrow> fst (recomputeCompra w (req_id req) d) = d \<longrightarrow>
        concurrent w d = d \<longrightarrow> snd (POST w req d) = d)"
proof -
  have 1: "reaches_transaction w req d \<longrightarrow>
      release_tx (upper_case w) (storage_fault w) (now w) (req_id req) (or_empty (session req))
        (saldosAplicados req) (snapshot w req d) = Inl e \<longrightarrow>
      POST w req d = (serverError FalhaAoLiberarCompra e, snapshot w req d)"
    using POST_tx_failure[of w req d e] by blast
  have 2: "reaches_transaction w req d \<longrightarrow>
        purchases (snapshot w req d) (req_id req) = Some p \<longrightarrow> status p = ''OPEN'' \<longrightarrow>
        cedenteId p = Some cid \<longrightarrow> cedentes (snapshot w req d) cid = Some ce \<longrightarrow>
        storage_fault w c = Some e' \<longrightarrow> (\<forall>c' \<in> set (calls_before c). storage_fault w c' = None) \<longrightarrow>
        (c = CommissionUpsert \<longrightarrow> gt_zero (Number (or_zero (cedentePayCents p)))) \<longrightarrow>
        POST w req d = (serverError FalhaAoLiberarCompra e', snapshot w req d)"
    using release_tx_fault[of "snapshot w req d" "req_id req" p cid ce "storage_fault w" c e'
        "upper_case w" "now w" "or_empty (session req)" "saldosAplicados req"]
      POST_tx_failure[of w req d e']
    by blast
  have 3: "\<not> is_ok (fst (POST w req d)) \<longrightarrow>
        snd (POST w req d) = d
        \<or> snd (POST w req d) = fst (recomputeCompra w (req_id req) d)
        \<or> snd (POST w req d) = snapshot w req d"
    using POST_not_ok_store[of w req d] by blast
  have 4: "\<not> is_ok (fst (POST w req d)) \<longrightarrow> fst (recomputeCompra w (req_id req) d) = d \<longrightarrow>
        concurrent w d = d \<longrightarrow> snd (POST w req d) = d"
    using POST_not_ok_store[of w req d] by (auto simp: snapshot_def)
  from 1 2 3 4 show ?thesis by (intro conjI)
qed

theorem release_is_atomic_witness:
  "reaches_transaction ex_world_faulty ex_request ex_db
   \<and> storage_fault ex_world_faulty ItemUpdateMany = Some (Thrown ''storage error'')
   \<and> storage_fault ex_world_faulty FindUnique = None
   \<and> storage_fault ex_world_faulty CedenteUpdate = None
   \<and> POST ex_world_faulty ex_request ex_db
       = (serverError FalhaAoLiberarCompra (Thrown ''storage error''), ex_db)
   \<and> \<not> is_ok (fst (POST ex_world_faulty ex_request ex_db))
   \<and> snd (POST ex_world_faulty ex_request ex_db) = ex_db"
proof -
  have s: "snapshot ex_world_faulty ex_request ex_db = ex_db"
    "fst (recomputeCompra ex_world_faulty (req_id ex_request) ex_db) = ex_db"
    "concurrent ex_world_faulty ex_db = ex_db"
    by (simp_all add: snapshot_def ex_world_faulty_def ex_world_def)
  have h: "purchases ex_db (req_id ex_request) = Some ex_purchase" "status ex_purchase = ''OPEN''"
    "cedenteId ex_purchase = Some ''c1''" "cedentes ex_db ''c1'' = Some ex_cedente"
    by (simp_all add: ex_db_def ex_request_def ex_purchase_def)
  have f: "storage_fault ex_world_faulty ItemUpdateMany = Some (Thrown ''storage error'')"
    "\<forall>c' \<in> set (calls_before ItemUpdateMany). storage_fault ex_world_faulty c' = None"
    by (simp_all add: ex_world_faulty_def ex_world_def)
  have g: "storage_fault ex_world_faulty FindUnique = None"
    "storage_fault ex_world_faulty CedenteUpdate = None"
    by (simp_all add: ex_world_faulty_def ex_world_def)
  have t: "release_tx (upper_case ex_world_faulty) (storage_fault ex_world_faulty) (now ex_world_faulty) (req_id ex_request)
       (or_empty (session ex_request)) (saldosAplicados ex_request)
       (snapshot ex_world_faulty ex_request ex_db) = Inl (Thrown ''storage error'')"
    unfolding s
    by (rule release_tx_fault[where c = ItemUpdateMany and p = ex_purchase
          and cid = "''c1''" and ce = ex_cedente])
       (simp_all add: h f)
  from release_is_atomic
    [of ex_world_faulty ex_request ex_db "Thrown ''storage error''" ex_purchase "''c1''"
        ex_cedente ItemUpdateMany "Thrown ''storage error''"]
    ex_reaches(3) s h f g t
  show ?thesis by simp
qed

text \<open>
  When the cedente is missing only on the re-read inside the transaction (another request
  detached it after the handler's own re-read), the release does not end in \<open>badRequest\<close>: the
  handler answers with the server error (status 500, not a 4xx), the message of the missing
  cedente being its detail.
\<close>

theorem missing_cedente_counterexample:
  "reaches_transaction ex_world_detaching ex_request ex_db
   \<and> purchases (snapshot ex_world_detaching ex_request ex_db) ''p1''
       = Some (ex_purchase\<lparr>cedenteId := None\<rparr>)
   \<and> status (ex_purchase\<lparr>cedenteId := None\<rparr>) = ''OPEN''
   \<and> include_cedente (snapshot ex_world_detaching ex_request ex_db)
        (ex_purchase\<lparr>cedenteId := None\<rparr>) = None
   \<and> fst (POST ex_world_detaching ex_request ex_db)
       = serverError FalhaAoLiberarCompra CedenteNaoEncontradoNaCompra
   \<and> fst (POST ex_world_detaching ex_request ex_db) \<noteq> badRequest CedenteNaoEncontradoNaCompra
   \<and> error_status (fst (POST ex_world_detaching ex_request ex_db)) = Some 500"
proof -
  have a: "purchases (snapshot ex_world_detaching ex_request ex_db) ''p1''
       = Some (ex_purchase\<lparr>cedenteId := None\<rparr>)"
    by (simp add: snapshot_def ex_world_detaching_def ex_world_def)
  have b: "status (ex_purchase\<lparr>cedenteId := None\<rparr>) = ''OPEN''"
    by (simp add: ex_purchase_def)
  have c: "include_cedente (snapshot ex_world_detaching ex_request ex_db)
        (ex_purchase\<lparr>cedenteId := None\<rparr>) = None"
    by (simp add: include_cedente_def)
  have r: "req_id ex_request = ''p1''" "storage_fault ex_world_detaching FindUnique = None"
    by (simp_all add: ex_request_def ex_world_detaching_def ex_world_def)
  have "release_tx (upper_case ex_world_detaching) (storage_fault ex_world_detaching) (now ex_world_detaching)
          (req_id ex_request) (or_empty (session ex_request)) (saldosAplicados ex_request)
          (snapshot ex_world_detaching ex_request ex_db) = Inl CedenteNaoEncontradoNaCompra"
    using a b c r by (intro release_tx_no_cedente) simp_all
  from POST_tx_failure[OF ex_reaches(2) this]
  have d: "fst (POST ex_world_detaching ex_request ex_db)
       = serverError FalhaAoLiberarCompra CedenteNaoEncontradoNaCompra"
    by simp
  from ex_reaches(2) a b c d show ?thesis by simp
qed

text \<open>
  C8, by the place of the check. A purchase that is \<open>OPEN\<close> and has no cedente on the
  handler's re-read makes the release fail by \<open>badRequest\<close> (status 400, not the 404 of \<open>notFound\<close>), with no write
  after the collaborator's; a purchase that is \<open>OPEN\<close> and has no cedente on the re-read
  inside the transaction makes the transaction throw, so that none of its writes is kept and
  the handler answers with the server error (status 500), the message of the missing cedente
  being its detail.
\<close>

theorem missing_cedente_failure:
  "(req_id req \<noteq> [] \<longrightarrow> or_empty (session req) \<noteq> [] \<longrightarrow>
      purchases d (req_id req) = Some p \<longrightarrow> status p = ''OPEN'' \<longrightarrow>
      recomputeCompra w (req_id req) d = (d1, None) \<longrightarrow>
      purchases d1 (req_id req) = Some p1 \<longrightarrow> status p1 = ''OPEN'' \<longrightarrow>
      include_cedente d1 p1 = None \<longrightarrow>
      POST w req d = (badRequest CedenteNaoEncontradoNaCompra, d1)
      \<and> error_status (fst (POST w req d)) = Some 400)
   \<and> (reaches_transaction w' req' d' \<longrightarrow> storage_fault w' FindUnique = None \<longrightarrow>
        purchases (snapshot w' req' d') (req_id req') = Some p' \<longrightarrow> status p' = ''OPEN'' \<longrightarrow>
        include_cedente (snapshot w' req' d') p' = None \<longrightarrow>
        POST w' req' d'
          = (serverError FalhaAoLiberarCompra CedenteNaoEncontradoNaCompra, snapshot w' req' d')
        \<and> error_status (fst (POST w' req' d')) = Some 500)"
proof -
  have 1: "req_id req \<noteq> [] \<longrightarrow> or_empty (session req) \<noteq> [] \<longrightarrow>
      purchases d (req_id req) = Some p \<longrightarrow> status p = ''OPEN'' \<longrightarrow>
      recomputeCompra w (req_id req) d = (d1, None) \<longrightarrow>
      purchases d1 (req_id req) = Some p1 \<longrightarrow> status p1 = ''OPEN'' \<longrightarrow>
      include_cedente d1 p1 = None \<longrightarrow>
      POST w req d = (badRequest CedenteNaoEncontradoNaCompra, d1)
      \<and> error_status (fst (POST w req d)) = Some 400"
    using POST_no_cedente_after_recompute[of req d p w d1 p1] by auto
  have 2: "reaches_transaction w' req' d' \<longrightarrow> storage_fault w' FindUnique = None \<longrightarrow>
        purchases (snapshot w' req' d') (req_id req') = Some p' \<longrightarrow> status p' = ''OPEN'' \<longrightarrow>
        include_cedente (snapshot w' req' d') p' = None \<longrightarrow>
        POST w' req' d'
          = (serverError FalhaAoLiberarCompra CedenteNaoEncontradoNaCompra, snapshot w' req' d')
        \<and> error_status (fst (POST w' req' d')) = Some 500"
    using release_tx_no_cedente[of "snapshot w' req' d'" "req_id req'" p' "storage_fault w'"
        "upper_case w'" "now w'" "or_empty (session req')" "saldosAplicados req'"]
      POST_tx_failure[of w' req' d' CedenteNaoEncontradoNaCompra]
    by auto
  from 1 2 show ?thesis by (intro conjI)
qed

theorem missing_cedente_failure_witness:
  "POST ex_world ex_request ex_db_orphan = (badRequest CedenteNaoEncontradoNaCompra, ex_db_orphan)
   \<and> error_status (fst (POST ex_world ex_request ex_db_orphan)) = Some 400
   \<and> reaches_transaction ex_world_detaching ex_request ex_db
   \<and> POST ex_world_detaching ex_request ex_db
       = (serverError FalhaAoLiberarCompra CedenteNaoEncontradoNaCompra,
          snapshot ex_world_detaching ex_request ex_db)
   \<and> error_status (fst (POST ex_world_detaching ex_request ex_db)) = Some 500"
proof -
  let ?orphan = "ex_purchase\<lparr>cedenteId := None\<rparr>"
  have r: "req_id ex_request \<noteq> []" "or_empty (session ex_request) \<noteq> []"
    by (simp_all add: ex_request_def)
  have o: "purchases ex_db_orphan (req_id ex_request) = Some ?orphan" "status ?orphan = ''OPEN''"
    "recomputeCompra ex_world (req_id ex_request) ex_db_orphan = (ex_db_orphan, None)"
    "include_cedente ex_db_orphan ?orphan = None"
    by (simp_all add: ex_db_orphan_def ex_request_def ex_purchase_def ex_world_def
        include_cedente_def)
  have s: "purchases (snapshot ex_world_detaching ex_request ex_db) (req_id ex_request)
       = Some ?orphan"
    "include_cedente (snapshot ex_world_detaching ex_request ex_db) ?orphan = None"
    "storage_fault ex_world_detaching FindUnique = None"
    by (simp_all add: snapshot_def ex_world_detaching_def ex_world_def ex_request_def
        include_cedente_def)
  from missing_cedente_failure
    [of ex_request ex_db_orphan ?orphan ex_world ex_db_orphan ?orphan
        ex_world_detaching ex_request ex_db ?orphan]
    r o s ex_reaches(2)
  show ?thesis by simp
qed

end
